theory Spec2Isabelle
  imports Complex_Main "HOL-Library.Multiset"
begin

section \<open>Python values, errors and library operations\<close>

text \<open>
  The data pipeline of the vocoder (\<^verbatim>\<open>meldataset.py\<close>, \<^verbatim>\<open>inference.py\<close>) is embedded
  function by function. A Python exception is a value of \<open>error\<close>; a function that can
  raise returns \<open>error + 'a\<close> with \<open>Inl\<close> for the exception.
\<close>

datatype error =
  ValueError | TypeError | IndexError | KeyError | ZeroDivisionError | OSError | RuntimeError

text \<open>
  Python slicing \<^verbatim>\<open>xs[a:b]\<close> with step one: a negative bound counts from the end, every
  bound is clamped to the list, and an empty range gives the empty list.
\<close>

definition slice_bound :: "nat \<Rightarrow> int \<Rightarrow> nat" where
  "slice_bound n i = (if i < 0 then nat (max 0 (int n + i)) else min n (nat i))"

definition py_slice :: "'a list \<Rightarrow> int option \<Rightarrow> int option \<Rightarrow> 'a list" where
  "py_slice xs a b =
     (let n = length xs;
          lo = (case a of None \<Rightarrow> 0 | Some i \<Rightarrow> slice_bound n i);
          hi = (case b of None \<Rightarrow> n | Some j \<Rightarrow> slice_bound n j)
      in take (hi - lo) (drop lo xs))"

text \<open>Python indexing \<^verbatim>\<open>xs[i]\<close>: negative indices count from the end, out of range raises.\<close>

definition py_index :: "'a list \<Rightarrow> int \<Rightarrow> error + 'a" where
  "py_index xs i =
     (if 0 \<le> i \<and> i < int (length xs) then Inr (xs ! nat i)
      else if i < 0 \<and> - int (length xs) \<le> i then Inr (xs ! nat (int (length xs) + i))
      else Inl IndexError)"

text \<open>
  \<^verbatim>\<open>int(x)\<close> truncates towards zero, \<^verbatim>\<open>math.ceil\<close> is the ceiling and \<^verbatim>\<open>round(x)\<close> rounds
  to the nearest integer, a tie going to the even neighbour. The source computes their
  arguments in double precision; the embedding computes them exactly, in \<open>rat\<close>.
\<close>

definition py_int :: "rat \<Rightarrow> int" where
  "py_int x = (if 0 \<le> x then \<lfloor>x\<rfloor> else \<lceil>x\<rceil>)"

definition py_round :: "rat \<Rightarrow> int" where
  "py_round x =
     (let f = \<lfloor>x\<rfloor>; d = x - of_int f
      in if d < 1 / 2 then f
         else if 1 / 2 < d then f + 1
         else if even f then f else f + 1)"

definition py_truediv :: "int \<Rightarrow> int \<Rightarrow> error + rat" where
  "py_truediv a b = (if b = 0 then Inl ZeroDivisionError else Inr (of_int a / of_int b))"

subsection \<open>The module \<^verbatim>\<open>random\<close>\<close>

text \<open>
  The state of Python's shared generator is the sequence of raw values it will still
  produce. \<^verbatim>\<open>_randbelow(n)\<close> consumes one of them and reduces it below \<open>n\<close>, so
  every value below \<open>n\<close> is a possible outcome; \<^verbatim>\<open>randint(a, b)\<close> is
  \<^verbatim>\<open>a + _randbelow(b - a + 1)\<close> and raises \<^verbatim>\<open>ValueError\<close> on an empty range, before
  it consumes anything. \<^verbatim>\<open>shuffle\<close> is the library's loop
  \<^verbatim>\<open>for i in reversed(range(1, len(x))): j = randbelow(i + 1); x[i], x[j] = x[j], x[i]\<close>.
\<close>

type_synonym rng = "nat \<Rightarrow> nat"

definition randbelow :: "nat \<Rightarrow> rng \<Rightarrow> nat \<times> rng" where
  "randbelow n g = (g 0 mod n, \<lambda>i. g (Suc i))"

definition randint :: "int \<Rightarrow> int \<Rightarrow> rng \<Rightarrow> error + (int \<times> rng)" where
  "randint a b g =
     (if b < a then Inl ValueError
      else (let (r, g') = randbelow (nat (b - a + 1)) g in Inr (a + int r, g')))"

fun shuffle_loop :: "nat \<Rightarrow> 'a list \<Rightarrow> rng \<Rightarrow> 'a list \<times> rng" where
  "shuffle_loop 0 xs g = (xs, g)"
| "shuffle_loop (Suc i) xs g =
     (let (j, g') = randbelow (Suc i + 1) g
      in shuffle_loop i (xs[Suc i := xs ! j, j := xs ! Suc i]) g')"

definition shuffle :: "'a list \<Rightarrow> rng \<Rightarrow> 'a list \<times> rng" where
  "shuffle xs g = shuffle_loop (length xs - 1) xs g"

subsection \<open>The file system\<close>

text \<open>
  What \<^verbatim>\<open>os.path.isdir\<close>, \<^verbatim>\<open>os.listdir\<close> and \<^verbatim>\<open>os.path.isfile\<close> answer on the disk the
  program runs on. \<^verbatim>\<open>os.path.join\<close> is the POSIX one.
\<close>

record filesystem =
  isdir :: "string \<Rightarrow> bool"
  listdir :: "string \<Rightarrow> string list"
  isfile :: "string \<Rightarrow> bool"

definition path_join :: "string \<Rightarrow> string \<Rightarrow> string" where
  "path_join a b =
     (if b \<noteq> [] \<and> hd b = CHR ''/'' then b
      else if a = [] \<or> last a = CHR ''/'' then a @ b
      else a @ ''/'' @ b)"

section \<open>Feature extraction\<close>

subsection \<open>The world outside the repository\<close>

text \<open>
  The files the program reads and the numeric library functions it calls are parameters
  of the embedding. \<open>wav_read\<close> is \<^verbatim>\<open>scipy.io.wavfile.read\<close> (the sample rate and the
  samples of a mono file, \<open>None\<close> when the file cannot be read), \<open>np_load\<close> is
  \<^verbatim>\<open>numpy.load\<close> of a mel file, \<open>resample\<close> is \<^verbatim>\<open>scipy.signal.resample\<close>,
  \<open>torch_hann_window\<close> is \<^verbatim>\<open>torch.hann_window\<close>, \<open>stft\<close> is the one-sided \<^verbatim>\<open>torch.stft\<close>
  without centring (arguments: \<^verbatim>\<open>n_fft\<close>, hop length, window length, window, signal),
  \<open>librosa_mel_fn\<close> and \<open>melscale_fbanks\<close> are the mel filter banks of librosa and of
  torchaudio, and \<open>seed_state\<close> is the state \<^verbatim>\<open>random.seed\<close> puts the shared generator
  in. Samples are real numbers: the rounding of single and double precision is not
  modelled. \<open>stft\<close> and \<open>resample\<close> give the library's result on the arguments the library
  accepts; the arguments on which \<^verbatim>\<open>torch.stft\<close> and \<^verbatim>\<open>scipy.signal.resample\<close> raise
  are written out below (\<open>stft_accepts\<close>, \<open>resample_to\<close>).

  A tensor of shape \<open>(1, T)\<close> is the list of its \<open>T\<close> samples. A spectrogram or mel
  tensor of shape \<open>(1, channels, frames)\<close> is the list of its frames, each frame the list
  of its channels, so that \<^verbatim>\<open>mel.size(2)\<close> is the length of the list.
\<close>

record env =
  wav_read :: "string \<Rightarrow> (int \<times> int list) option"
  np_load :: "string \<Rightarrow> real list list option"
  resample :: "real list \<Rightarrow> nat \<Rightarrow> real list"
  torch_hann_window :: "int \<Rightarrow> real list"
  stft :: "int \<Rightarrow> int \<Rightarrow> int \<Rightarrow> real list \<Rightarrow> real list \<Rightarrow> complex list list"
  librosa_mel_fn :: "int \<Rightarrow> int \<Rightarrow> int \<Rightarrow> int \<Rightarrow> int option \<Rightarrow> real list list"
  melscale_fbanks :: "int \<Rightarrow> int \<Rightarrow> int option \<Rightarrow> int \<Rightarrow> int \<Rightarrow> real list list"
  seed_state :: "int \<Rightarrow> rng"

text \<open>A filter bank is the list of its filters; \<open>mat_vec\<close> applies it to one frame.\<close>

definition mat_vec :: "real list list \<Rightarrow> real list \<Rightarrow> real list" where
  "mat_vec basis frame = map (\<lambda>row. sum_list (map2 (*) row frame)) basis"

text \<open>
  \<^verbatim>\<open>torch.nn.functional.pad(x, (0, k), 'constant')\<close> on the last dimension: \<open>k\<close> values
  \<open>z\<close> are appended, a negative \<open>k\<close> removes values from the end, and a result of negative
  size raises.
\<close>

definition pad_right :: "'a \<Rightarrow> 'a list \<Rightarrow> int \<Rightarrow> error + 'a list" where
  "pad_right z xs k =
     (if 0 \<le> k then Inr (xs @ replicate (nat k) z)
      else if - k \<le> int (length xs) then Inr (take (length xs - nat (- k)) xs)
      else Inl RuntimeError)"

text \<open>
  Reflection padding by \<open>p\<close> on both sides: the mirror image without the border sample;
  it needs \<open>p < length y\<close>. A negative \<open>p\<close> crops both sides.
\<close>

definition reflect_pad :: "int \<Rightarrow> real list \<Rightarrow> error + real list" where
  "reflect_pad p y =
     (if 0 \<le> p then
        (if nat p < length y
         then Inr (rev (take (nat p) (drop 1 y)) @ y @ take (nat p) (drop 1 (rev y)))
         else Inl RuntimeError)
      else if 2 * nat (- p) \<le> length y
        then Inr (take (length y - 2 * nat (- p)) (drop (nat (- p)) y))
        else Inl RuntimeError)"

text \<open>
  The argument checks of \<^verbatim>\<open>torch.stft\<close> without centring, for a signal of \<open>len\<close> samples:
  it raises \<^verbatim>\<open>RuntimeError\<close> unless \<open>0 < n_fft \<le> len\<close>, \<open>0 < hop_length\<close> and
  \<open>0 < win_length \<le> n_fft\<close>. In particular a signal shorter than one frame is refused.
\<close>

definition stft_accepts :: "int \<Rightarrow> int \<Rightarrow> int \<Rightarrow> nat \<Rightarrow> bool" where
  "stft_accepts n_fft hop_length win_length len =
     (0 < n_fft \<and> n_fft \<le> int len \<and> 0 < hop_length \<and> 0 < win_length \<and> win_length \<le> n_fft)"

definition dynamic_range_compression_torch :: "real \<Rightarrow> real \<Rightarrow> real \<Rightarrow> real" where
  "dynamic_range_compression_torch x C clip_val = ln (max x clip_val * C)"

definition spectral_normalize_torch :: "real \<Rightarrow> real" where
  "spectral_normalize_torch magnitudes = dynamic_range_compression_torch magnitudes 1 (1 / 100000)"

subsection \<open>\<^verbatim>\<open>mel_spectrogram\<close> and its module-level caches\<close>

text \<open>\<^verbatim>\<open>str\<close> of an integer and of \<^verbatim>\<open>fmax\<close>, which is an integer or \<^verbatim>\<open>None\<close>.\<close>

fun str_nat :: "nat \<Rightarrow> string" where
  "str_nat n =
     (if n < 10 then [''0123456789'' ! n]
      else str_nat (n div 10) @ [''0123456789'' ! (n mod 10)])"

declare str_nat.simps [simp del]

definition str_int :: "int \<Rightarrow> string" where
  "str_int i = (if i < 0 then CHR ''-'' # str_nat (nat (- i)) else str_nat (nat i))"

definition str_fmax :: "int option \<Rightarrow> string" where
  "str_fmax fmax = (case fmax of None \<Rightarrow> ''None'' | Some n \<Rightarrow> str_int n)"

text \<open>
  The keys of the dictionary \<^verbatim>\<open>mel_basis\<close> are Python values: the test
  \<^verbatim>\<open>fmax not in mel_basis\<close> looks up \<^verbatim>\<open>fmax\<close> itself, a number or \<^verbatim>\<open>None\<close>, and the
  assignment stores under the string \<^verbatim>\<open>str(fmax)+'_'+str(y.device)\<close>. A number, \<^verbatim>\<open>None\<close>
  and a string are never equal as keys.
\<close>

datatype pykey = KInt int | KNone | KStr string

definition fmax_key :: "int option \<Rightarrow> pykey" where
  "fmax_key fmax = (case fmax of None \<Rightarrow> KNone | Some n \<Rightarrow> KInt n)"

text \<open>
  The two module-level dictionaries. \<open>mel_fn_calls\<close> is not a variable of the source: it
  counts how often \<^verbatim>\<open>librosa_mel_fn\<close> has been evaluated, which is what a statement
  about recomputation is about.
\<close>

record mel_globals =
  mel_basis :: "pykey \<Rightarrow> real list list option"
  hann_window :: "string \<Rightarrow> real list option"
  mel_fn_calls :: nat

definition initial_globals :: mel_globals where
  "initial_globals = \<lparr>mel_basis = Map.empty, hann_window = Map.empty, mel_fn_calls = 0\<rparr>"

text \<open>
  \<^verbatim>\<open>mel_spectrogram\<close> for one waveform \<open>y\<close> on the device \<open>device\<close> (\<^verbatim>\<open>str(y.device)\<close>).
  The two \<^verbatim>\<open>print\<close> statements are left out. The updated dictionaries are returned also
  when a later statement raises.
\<close>

definition mel_spectrogram ::
  "env \<Rightarrow> mel_globals \<Rightarrow> real list \<Rightarrow> string \<Rightarrow> int \<Rightarrow> int \<Rightarrow> int \<Rightarrow> int \<Rightarrow> int \<Rightarrow> int
     \<Rightarrow> int option \<Rightarrow> mel_globals \<times> (error + real list list)" where
  "mel_spectrogram E gl y device n_fft num_mels sampling_rate hop_size win_size fmin fmax =
     (let key = KStr (str_fmax fmax @ ''_'' @ device);
          gl' = (if mel_basis gl (fmax_key fmax) = None
                 then gl\<lparr>mel_basis := (mel_basis gl)
                             (key \<mapsto> librosa_mel_fn E sampling_rate n_fft num_mels fmin fmax),
                         hann_window := (hann_window gl)(device \<mapsto> torch_hann_window E win_size),
                         mel_fn_calls := Suc (mel_fn_calls gl)\<rparr>
                 else gl)
      in (gl',
          case reflect_pad (py_int (of_int (n_fft - hop_size) / 2)) y of
            Inl e \<Rightarrow> Inl e
          | Inr y' \<Rightarrow>
              (case hann_window gl' device of
                 None \<Rightarrow> Inl KeyError
               | Some window \<Rightarrow>
                   (if \<not> stft_accepts n_fft hop_size win_size (length y') then Inl RuntimeError
                    else
                      (let spec = map (map (\<lambda>z. sqrt ((Re z)\<^sup>2 + (Im z)\<^sup>2 + 1 / 10 ^ 9)))
                                    (stft E n_fft hop_size win_size window y')
                       in case mel_basis gl' key of
                            None \<Rightarrow> Inl KeyError
                          | Some basis \<Rightarrow>
                              Inr (map (\<lambda>frame. map spectral_normalize_torch
                                                  (mat_vec basis frame))
                                     spec))))))"

subsection \<open>The transform \<^verbatim>\<open>torchaudio.transforms.MelSpectrogram\<close>\<close>

text \<open>
  The transform the dataset and the inference script construct: the waveform is padded
  with \<open>pad\<close> zeros on both sides when \<open>pad\<close> is positive, the short-time Fourier
  transform is taken with a Hann window and without centring, every bin is replaced by
  its absolute value raised to \<open>pwr\<close> (the argument \<^verbatim>\<open>power\<close>), and every frame is
  projected through the mel filter bank. No logarithm is applied. The transform raises
  when \<^verbatim>\<open>torch.stft\<close> refuses the padded waveform, as it does for a waveform that is
  empty or shorter than one frame.
\<close>

definition zero_pad :: "int \<Rightarrow> real list \<Rightarrow> real list" where
  "zero_pad pad waveform =
     (if 0 < pad then replicate (nat pad) 0 @ waveform @ replicate (nat pad) 0 else waveform)"

definition MelSpectrogram ::
  "env \<Rightarrow> int \<Rightarrow> int \<Rightarrow> int \<Rightarrow> int \<Rightarrow> int \<Rightarrow> int option \<Rightarrow> int \<Rightarrow> int \<Rightarrow> nat
     \<Rightarrow> real list \<Rightarrow> error + real list list" where
  "MelSpectrogram E sample_rate n_fft win_length hop_length f_min f_max pad n_mels pwr waveform =
     (let padded = zero_pad pad waveform
      in if \<not> stft_accepts n_fft hop_length win_length (length padded) then Inl RuntimeError
         else
           (let specgram = stft E n_fft hop_length win_length (torch_hann_window E win_length)
                             padded;
                fb = melscale_fbanks E (n_fft div 2 + 1) f_min f_max n_mels sample_rate
            in Inr (map (\<lambda>frame. mat_vec fb (map (\<lambda>z. cmod z ^ pwr) frame)) specgram)))"

text \<open>
  The extraction as the specification words it, from the transform's frames on: the
  magnitude of each bin, the projection through the mel basis, and the compression
  \<open>log(clamp(mel, min=1e-5))\<close>.
\<close>

definition spec_log_mel :: "real list list \<Rightarrow> complex list list \<Rightarrow> real list list" where
  "spec_log_mel basis specgram =
     map (\<lambda>frame. map (\<lambda>m. ln (max m (1 / 100000))) (mat_vec basis (map cmod frame))) specgram"

section \<open>Corpus indexing: \<^verbatim>\<open>recursive_file_extract\<close> and \<^verbatim>\<open>get_dataset_filelist\<close>\<close>

text \<open>
  The class-path configuration is a dictionary whose values are dictionaries of the same
  kind or lists of directory names. A dictionary is the list of its items in insertion
  order, the order in which \<^verbatim>\<open>for key in cls_pth\<close> visits them.
\<close>

datatype cls_val = ClsMap "(string \<times> cls_val) list" | ClsList "string list"

text \<open>
  The statement \<^verbatim>\<open>flist, llist = recursive_file_extract(...)\<close> unpacks the returned list
  of file names into two targets: it raises \<^verbatim>\<open>ValueError\<close> unless the list has exactly
  two elements, and then both targets are strings. \<^verbatim>\<open>filename_list + flist\<close> is list
  concatenation, which raises \<^verbatim>\<open>TypeError\<close> when the right operand is a string.
\<close>

datatype pyval = PyStr string | PyList "string list"

definition unpack2 :: "string list \<Rightarrow> error + (pyval \<times> pyval)" where
  "unpack2 ret = (case ret of [a, b] \<Rightarrow> Inr (PyStr a, PyStr b) | _ \<Rightarrow> Inl ValueError)"

definition list_add :: "string list \<Rightarrow> pyval \<Rightarrow> error + string list" where
  "list_add xs v = (case v of PyList ys \<Rightarrow> Inr (xs @ ys) | PyStr s \<Rightarrow> Inl TypeError)"

text \<open>The inner loop \<^verbatim>\<open>for child in cls_pth[key]\<close> (the counter \<^verbatim>\<open>j\<close> is never read).\<close>

definition child_files :: "filesystem \<Rightarrow> string \<Rightarrow> string list" where
  "child_files fs fd =
     (if isdir fs fd
      then map (path_join fd) (filter (\<lambda>f. isfile fs (path_join fd f)) (listdir fs fd))
      else [])"

definition extract_children ::
  "filesystem \<Rightarrow> string \<Rightarrow> string \<Rightarrow> string list \<Rightarrow> string list \<Rightarrow> string list" where
  "extract_children fs base_pth key children filename_list =
     foldl (\<lambda>acc child. acc @ child_files fs (base_pth @ key @ ''/'' @ child @ ''/''))
       filename_list children"

text \<open>
  The loop \<^verbatim>\<open>for key in cls_pth\<close> with its variables \<^verbatim>\<open>i\<close>, \<^verbatim>\<open>filename_list\<close> and
  \<^verbatim>\<open>cls_queue\<close>; the recursive call starts a fresh loop on the nested dictionary. The
  queue is appended to and passed down but never read.
\<close>

function rfe_loop ::
  "filesystem \<Rightarrow> string \<Rightarrow> (string \<times> cls_val) list \<Rightarrow> nat \<Rightarrow> string list \<Rightarrow> nat list
     \<Rightarrow> error + string list" where
  "rfe_loop fs base_pth [] i filename_list cls_queue = Inr filename_list"
| "rfe_loop fs base_pth ((key, ClsMap m) # rest) i filename_list cls_queue =
     (case rfe_loop fs (base_pth @ key @ ''/'') m 0 [] (cls_queue @ [i]) of
        Inl e \<Rightarrow> Inl e
      | Inr ret \<Rightarrow>
          (case unpack2 ret of
             Inl e \<Rightarrow> Inl e
           | Inr (flist, llist) \<Rightarrow>
               (case list_add filename_list flist of
                  Inl e \<Rightarrow> Inl e
                | Inr filename_list' \<Rightarrow> rfe_loop fs base_pth rest (i + 1) filename_list' [])))"
| "rfe_loop fs base_pth ((key, ClsList children) # rest) i filename_list cls_queue =
     rfe_loop fs base_pth rest (i + 1)
       (extract_children fs base_pth key children filename_list) cls_queue"
  by pat_completeness auto
termination
  by (relation "measure (\<lambda>(fs, base_pth, cls_pth, i, filename_list, cls_queue).
        size_list (size_prod (\<lambda>_. 0) size) cls_pth)") auto

definition recursive_file_extract ::
  "filesystem \<Rightarrow> string \<Rightarrow> (string \<times> cls_val) list \<Rightarrow> nat list \<Rightarrow> error + string list" where
  "recursive_file_extract fs base_pth cls_pth cls_queue = rfe_loop fs base_pth cls_pth 0 [] cls_queue"

text \<open>
  The configuration \<^verbatim>\<open>h\<close>, with the keys the embedded functions read (and the seed).
\<close>

record hparams =
  n_fft :: int
  num_mels :: int
  sampling_rate :: int
  hop_size :: int
  win_size :: int
  fmin :: int
  fmax :: "int option"
  segment_size :: int
  seed :: int
  num_validation :: rat
  base_pth :: "string list"
  cls_pth :: "(string \<times> cls_val) list"

text \<open>
  The loop over \<^verbatim>\<open>h.base_pth\<close>; \<^verbatim>\<open>filelist\<close> starts as \<^verbatim>\<open>None\<close>. Each call of
  \<^verbatim>\<open>recursive_file_extract\<close> leaves out the queue argument.
\<close>

fun gather_files ::
  "filesystem \<Rightarrow> (string \<times> cls_val) list \<Rightarrow> string list \<Rightarrow> string list option
     \<Rightarrow> error + string list option" where
  "gather_files fs cls [] filelist = Inr filelist"
| "gather_files fs cls (base # bases) filelist =
     (case recursive_file_extract fs base cls [] of
        Inl e \<Rightarrow> Inl e
      | Inr files \<Rightarrow>
          gather_files fs cls bases
            (Some (case filelist of None \<Rightarrow> files | Some fl \<Rightarrow> fl @ files)))"

text \<open>
  \<^verbatim>\<open>random.shuffle(None)\<close> raises \<^verbatim>\<open>TypeError\<close>, which is what an empty \<^verbatim>\<open>h.base_pth\<close>
  leads to. The split point \<^verbatim>\<open>int(len(filelist) * (1 - h.num_validation))\<close> is computed
  here in exact arithmetic. The source computes it in double precision, which can give
  one item less where the exact product is an integer or just above one: for ten files
  and \<^verbatim>\<open>num_validation = 0.9\<close> the source gets \<open>0\<close> and the exact value is \<open>1\<close>. Only
  the fraction one tenth is used below; there the rounding error of the product is far
  smaller than the distance of \<open>9N/10\<close> to the next integer, and the two agree.
\<close>

definition get_dataset_filelist ::
  "filesystem \<Rightarrow> hparams \<Rightarrow> rng \<Rightarrow> error + ((string list \<times> string list) \<times> rng)" where
  "get_dataset_filelist fs h g =
     (case gather_files fs (cls_pth h) (base_pth h) None of
        Inl e \<Rightarrow> Inl e
      | Inr None \<Rightarrow> Inl TypeError
      | Inr (Some filelist) \<Rightarrow>
          (let (shuffled, g') = shuffle filelist g;
               k = py_int (of_nat (length shuffled) * (1 - num_validation h))
           in Inr ((py_slice shuffled None (Some k), py_slice shuffled (Some k) None), g')))"

section \<open>The dataset: \<^verbatim>\<open>MelDataset\<close>\<close>

text \<open>
  List objects live in a store, so that two names of one list see each other's changes.
  The constructor's arguments other than \<^verbatim>\<open>training_files\<close> and \<^verbatim>\<open>shuffle\<close> are the
  record \<open>dataset_args\<close>; the object has them as attributes, together with the
  reference \<open>audio_files\<close>, the one-slot cache and the transform \<open>mel_spec\<close>.
\<close>

type_synonym heap = "nat \<Rightarrow> string list"

record dataset_args =
  segment_size :: int
  n_fft :: int
  num_mels :: int
  hop_size :: int
  win_size :: int
  sampling_rate :: int
  fmin :: int
  fmax :: "int option"
  split :: bool
  n_cache_reuse :: int
  device :: "string option"
  fmax_loss :: "int option"
  fine_tuning :: bool
  base_mels_path :: "string option"

record mel_dataset = dataset_args +
  audio_files :: nat
  cached_wav :: "real list option"
  cache_ref_count :: int
  mel_spec :: "real list \<Rightarrow> error + real list list"

text \<open>
  \<^verbatim>\<open>__init__\<close>: \<open>g\<close> is the state of the shared generator when the constructor is called.
  \<^verbatim>\<open>random.seed(1234)\<close> replaces it, and the shuffle works on the caller's list object.
\<close>

definition MelDataset_init ::
  "env \<Rightarrow> heap \<Rightarrow> rng \<Rightarrow> nat \<Rightarrow> dataset_args \<Rightarrow> bool \<Rightarrow> heap \<times> rng \<times> mel_dataset" where
  "MelDataset_init E heap g training_files a do_shuffle =
     (let g1 = seed_state E 1234;
          (heap', g2) =
            (if do_shuffle
             then (let (xs, g') = shuffle (heap training_files) g1
                   in (heap(training_files := xs), g'))
             else (heap, g1))
      in (heap', g2,
          \<lparr>segment_size = segment_size a, n_fft = n_fft a, num_mels = num_mels a,
           hop_size = hop_size a, win_size = win_size a, sampling_rate = sampling_rate a,
           fmin = fmin a, fmax = fmax a, split = split a, n_cache_reuse = n_cache_reuse a,
           device = device a, fmax_loss = fmax_loss a, fine_tuning = fine_tuning a,
           base_mels_path = base_mels_path a,
           audio_files = training_files, cached_wav = None, cache_ref_count = 0,
           mel_spec = MelSpectrogram E (sampling_rate a) (n_fft a) (win_size a) (hop_size a)
                        (fmin a) (fmax a) (py_int (of_int (n_fft a - hop_size a) / 2))
                        (num_mels a) 2\<rparr>))"

text \<open>
  \<^verbatim>\<open>resample(audio, number_of_samples)\<close>: the library raises \<^verbatim>\<open>ValueError\<close> when the
  number of samples asked for is zero or negative, and when the waveform is empty.
\<close>

definition resample_to :: "env \<Rightarrow> real list \<Rightarrow> int \<Rightarrow> error + real list" where
  "resample_to E audio number_of_samples =
     (if number_of_samples \<le> 0 \<or> audio = [] then Inl ValueError
      else Inr (resample E audio (nat number_of_samples)))"

text \<open>
  The first part of \<^verbatim>\<open>__getitem__\<close>: the waveform, from the file or from the cache. The
  attributes changed before an exception stay changed.
\<close>

definition getitem_load :: "env \<Rightarrow> mel_dataset \<Rightarrow> string \<Rightarrow> mel_dataset \<times> (error + real list)" where
  "getitem_load E d filename =
     (if cache_ref_count d = 0 then
        (case wav_read E filename of
           None \<Rightarrow> (d, Inl OSError)
         | Some (file_rate, data) \<Rightarrow>
             (let audio = map (\<lambda>v. real_of_int v / 32768) data;
                  d1 = d\<lparr>cached_wav := Some audio\<rparr>
              in if file_rate \<noteq> sampling_rate d then
                   (case py_truediv (int (length audio) * sampling_rate d) file_rate of
                      Inl e \<Rightarrow> (d1, Inl e)
                    | Inr q \<Rightarrow>
                        (case resample_to E audio (py_round q) of
                           Inl e \<Rightarrow> (d1, Inl e)
                         | Inr audio' \<Rightarrow>
                             (d1\<lparr>cache_ref_count := n_cache_reuse d\<rparr>, Inr audio')))
                 else (d1\<lparr>cache_ref_count := n_cache_reuse d\<rparr>, Inr audio)))
      else
        (let d1 = d\<lparr>cache_ref_count := cache_ref_count d - 1\<rparr>
         in case cached_wav d of
              None \<Rightarrow> (d1, Inl TypeError)
            | Some audio \<Rightarrow> (d1, Inr audio)))"

text \<open>
  The splitting of the branch \<^verbatim>\<open>if not self.fine_tuning\<close>: the audio segment and the
  state of the generator after the draw.
\<close>

definition segment_plain :: "mel_dataset \<Rightarrow> real list \<Rightarrow> rng \<Rightarrow> error + (real list \<times> rng)" where
  "segment_plain d audio g =
     (if split d then
        (if segment_size d \<le> int (length audio) then
           (let max_audio_start = int (length audio) - segment_size d
            in case randint 0 max_audio_start g of
                 Inl e \<Rightarrow> Inl e
               | Inr (audio_start, g') \<Rightarrow>
                   Inr (py_slice audio (Some audio_start) (Some (audio_start + segment_size d)),
                        g'))
         else
           (case pad_right 0 audio (segment_size d - int (length audio)) of
              Inl e \<Rightarrow> Inl e
            | Inr audio' \<Rightarrow> Inr (audio', g)))
      else Inr (audio, g))"

text \<open>
  \<^verbatim>\<open>os.path.split(filename)[-1]\<close> and \<^verbatim>\<open>os.path.splitext(name)[0]\<close> for a name without a
  slash: the extension starts at the last dot, unless only dots come before it.
\<close>

definition path_tail :: "string \<Rightarrow> string" where
  "path_tail p = rev (takeWhile (\<lambda>c. c \<noteq> CHR ''/'') (rev p))"

definition splitext_root :: "string \<Rightarrow> string" where
  "splitext_root p =
     (let ext = takeWhile (\<lambda>c. c \<noteq> CHR ''.'') (rev p)
      in if length ext = length p then p
         else (let root = take (length p - length ext - 1) p
               in if filter (\<lambda>c. c \<noteq> CHR ''.'') root = [] then p else root))"

text \<open>The zero frame that padding a mel tensor appends.\<close>

definition zero_frame :: "real list list \<Rightarrow> real list" where
  "zero_frame mel = (case mel of [] \<Rightarrow> [] | frame # _ \<Rightarrow> replicate (length frame) 0)"

text \<open>
  The branch \<^verbatim>\<open>else\<close>: the mel is loaded from \<^verbatim>\<open>base_mels_path\<close>, and the mel and the
  audio are cut or padded.
\<close>

definition segment_fine_tuning ::
  "env \<Rightarrow> mel_dataset \<Rightarrow> string \<Rightarrow> real list \<Rightarrow> rng
     \<Rightarrow> error + (real list list \<times> real list \<times> rng)" where
  "segment_fine_tuning E d filename audio g =
     (case base_mels_path d of
        None \<Rightarrow> Inl TypeError
      | Some dir \<Rightarrow>
          (case np_load E (path_join dir (splitext_root (path_tail filename) @ ''.npy'')) of
             None \<Rightarrow> Inl OSError
           | Some mel \<Rightarrow>
               (if split d then
                  (case py_truediv (segment_size d) (hop_size d) of
                     Inl e \<Rightarrow> Inl e
                   | Inr q \<Rightarrow>
                       (let frames_per_seg = \<lceil>q\<rceil>
                        in if segment_size d \<le> int (length audio) then
                             (case randint 0 (int (length mel) - frames_per_seg - 1) g of
                                Inl e \<Rightarrow> Inl e
                              | Inr (mel_start, g') \<Rightarrow>
                                  Inr (py_slice mel (Some mel_start)
                                         (Some (mel_start + frames_per_seg)),
                                       py_slice audio (Some (mel_start * hop_size d))
                                         (Some ((mel_start + frames_per_seg) * hop_size d)),
                                       g'))
                           else
                             (case pad_right (zero_frame mel) mel
                                     (frames_per_seg - int (length mel)) of
                                Inl e \<Rightarrow> Inl e
                              | Inr mel' \<Rightarrow>
                                  (case pad_right 0 audio
                                          (segment_size d - int (length audio)) of
                                     Inl e \<Rightarrow> Inl e
                                   | Inr audio' \<Rightarrow> Inr (mel', audio', g)))))
                else Inr (mel, audio, g))))"

text \<open>
  \<^verbatim>\<open>__getitem__\<close>: the new state of the object and of the generator, and the tuple
  \<^verbatim>\<open>(mel, audio, filename, mel_loss)\<close> or the exception. Without fine-tuning the
  transform is applied to the segment twice, for \<^verbatim>\<open>mel\<close> and for \<^verbatim>\<open>mel_loss\<close>; with
  fine-tuning once, for \<^verbatim>\<open>mel_loss\<close>. When the transform raises, the draw has already
  advanced the generator.
\<close>

definition getitem ::
  "env \<Rightarrow> heap \<Rightarrow> mel_dataset \<Rightarrow> rng \<Rightarrow> int
     \<Rightarrow> (mel_dataset \<times> rng)
        \<times> (error + (real list list \<times> real list \<times> string \<times> real list list))" where
  "getitem E heap d g index =
     (case py_index (heap (audio_files d)) index of
        Inl e \<Rightarrow> ((d, g), Inl e)
      | Inr filename \<Rightarrow>
          (let (d', loaded) = getitem_load E d filename
           in case loaded of
                Inl e \<Rightarrow> ((d', g), Inl e)
              | Inr audio \<Rightarrow>
                  (if \<not> fine_tuning d then
                     (case segment_plain d' audio g of
                        Inl e \<Rightarrow> ((d', g), Inl e)
                      | Inr (audio', g') \<Rightarrow>
                          (case mel_spec d' audio' of
                             Inl e \<Rightarrow> ((d', g'), Inl e)
                           | Inr mel \<Rightarrow>
                               (case mel_spec d' audio' of
                                  Inl e \<Rightarrow> ((d', g'), Inl e)
                                | Inr mel_loss \<Rightarrow>
                                    ((d', g'), Inr (mel, audio', filename, mel_loss)))))
                   else
                     (case segment_fine_tuning E d' filename audio g of
                        Inl e \<Rightarrow> ((d', g), Inl e)
                      | Inr (mel, audio', g') \<Rightarrow>
                          (case mel_spec d' audio' of
                             Inl e \<Rightarrow> ((d', g'), Inl e)
                           | Inr mel_loss \<Rightarrow>
                               ((d', g'), Inr (mel, audio', filename, mel_loss)))))))"

section \<open>The inference script\<close>

text \<open>
  The body of the loop of \<^verbatim>\<open>inference\<close> up to the generator's input: the waveform is
  loaded, scaled and resampled (\<open>inference_wav\<close>), a random segment is cut when it is at
  least \<^verbatim>\<open>h.segment_size\<close> long, and the transform is applied.
\<close>

definition inference_wav :: "env \<Rightarrow> hparams \<Rightarrow> string \<Rightarrow> error + real list" where
  "inference_wav E h path =
     (case wav_read E path of
        None \<Rightarrow> Inl OSError
      | Some (sr, data) \<Rightarrow>
          (let wav = map (\<lambda>v. real_of_int v / 32768) data
           in if sr \<noteq> hparams.sampling_rate h then
                (case py_truediv (int (length wav) * hparams.sampling_rate h) sr of
                   Inl e \<Rightarrow> Inl e
                 | Inr q \<Rightarrow> resample_to E wav (py_round q))
              else Inr wav))"

definition inference_input ::
  "env \<Rightarrow> hparams \<Rightarrow> string \<Rightarrow> string \<Rightarrow> rng \<Rightarrow> error + (real list \<times> real list list \<times> rng)" where
  "inference_input E h input_wavs_dir filname g =
     (case inference_wav E h (path_join input_wavs_dir filname) of
        Inl e \<Rightarrow> Inl e
      | Inr wav \<Rightarrow>
          (let mel_spec = MelSpectrogram E (hparams.sampling_rate h) (hparams.n_fft h)
                 (hparams.win_size h) (hparams.hop_size h) (hparams.fmin h) (hparams.fmax h)
                 (py_int (of_int (hparams.n_fft h - hparams.hop_size h) / 2))
                 (hparams.num_mels h) 2
           in if hparams.segment_size h \<le> int (length wav) then
                (case randint 0 (int (length wav) - hparams.segment_size h) g of
                   Inl e \<Rightarrow> Inl e
                 | Inr (audio_start, g') \<Rightarrow>
                     (let wav' = py_slice wav (Some audio_start)
                                   (Some (audio_start + hparams.segment_size h))
                      in case mel_spec wav' of
                           Inl e \<Rightarrow> Inl e
                         | Inr x \<Rightarrow> Inr (wav', x, g')))
              else (case mel_spec wav of
                      Inl e \<Rightarrow> Inl e
                    | Inr x \<Rightarrow> Inr (wav, x, g))))"

section \<open>Example inputs\<close>

text \<open>
  The disk of the specification's example: under \<^verbatim>\<open>/data/\<close> only \<^verbatim>\<open>a/b/x/\<close> exists, and it
  holds the two files \<^verbatim>\<open>f1\<close> and \<^verbatim>\<open>f2\<close>.
\<close>

definition example_disk :: filesystem where
  "example_disk =
     \<lparr>isdir = (\<lambda>p. p \<in> set [''/data/'', ''/data/a/'', ''/data/a/b/'', ''/data/a/b/x/'']),
      listdir = (\<lambda>p. if p = ''/data/a/b/x/'' then [''f1'', ''f2''] else []),
      isfile = (\<lambda>p. p \<in> set [''/data/a/b/x/f1'', ''/data/a/b/x/f2''])\<rparr>"

definition example_hparams :: hparams where
  "example_hparams =
     \<lparr>hparams.n_fft = 1, hparams.num_mels = 1, hparams.sampling_rate = 22050,
      hparams.hop_size = 1, hparams.win_size = 1, hparams.fmin = 0,
      hparams.fmax = Some 8000, hparams.segment_size = 8192, seed = 1234,
      num_validation = 1 / 10,
      base_pth = [''/data/a/''], cls_pth = [(''b'', ClsList [''x'', ''y''])]\<rparr>"


text \<open>
  Library functions for the examples: the textbook short-time Fourier transform (frame
  \<open>t\<close> starts at sample \<open>t * hop\<close>, bins \<open>0\<close> to \<open>nfft div 2\<close>), the periodic Hann window,
  resampling by nearest neighbour, filter banks of all-one filters, and a generator
  whose raw values after \<^verbatim>\<open>seed(s)\<close> are \<open>|s|, |s| + 1, ...\<close>.
\<close>

definition example_stft :: "int \<Rightarrow> int \<Rightarrow> int \<Rightarrow> real list \<Rightarrow> real list \<Rightarrow> complex list list" where
  "example_stft nfft hop win window y =
     map (\<lambda>t. map (\<lambda>k. \<Sum>n\<leftarrow>[0..<nat nfft].
                          of_real (y ! (t * nat hop + n) * window ! n)
                            * cis (- 2 * pi * real k * real n / real_of_int nfft))
                 [0..<nat (nfft div 2 + 1)])
       [0..<(if length y < nat nfft then 0 else 1 + (length y - nat nfft) div nat hop)]"

definition example_hann :: "int \<Rightarrow> real list" where
  "example_hann n =
     (if n = 1 then [1]
      else map (\<lambda>k. (1 - cos (2 * pi * real k / real_of_int n)) / 2) [0..<nat n])"

definition example_resample :: "real list \<Rightarrow> nat \<Rightarrow> real list" where
  "example_resample x n = map (\<lambda>i. x ! (i * length x div n)) [0..<n]"

text \<open>
  The files of the examples: \<^verbatim>\<open>a.wav\<close> is one sample at the target rate, \<^verbatim>\<open>b.wav\<close> four
  samples at twice the target rate, \<^verbatim>\<open>c.wav\<close> ten samples, \<^verbatim>\<open>d.wav\<close> sixteen samples
  and \<^verbatim>\<open>e.wav\<close> \<open>8192\<close> samples at the target rate, \<^verbatim>\<open>f.wav\<close> one sample at twice the
  target rate; the mel files of \<^verbatim>\<open>c\<close> and \<^verbatim>\<open>d\<close> have five frames, the one of \<^verbatim>\<open>e\<close>
  has \<open>32\<close>.
\<close>

definition example_env :: env where
  "example_env =
     \<lparr>wav_read = (\<lambda>p. if p = ''a.wav'' then Some (22050, [16384])
                      else if p = ''b.wav'' then Some (44100, [16384, 0, - 16384, 0])
                      else if p = ''c.wav'' then Some (22050, replicate 10 0)
                      else if p = ''d.wav'' then Some (22050, replicate 16 0)
                      else if p = ''e.wav'' then Some (22050, replicate 8192 0)
                      else if p = ''f.wav'' then Some (44100, [16384])
                      else None),
      np_load = (\<lambda>p. if p = ''mels/c.npy'' \<or> p = ''mels/d.npy'' then Some (replicate 5 [0])
                     else if p = ''mels/e.npy'' then Some (replicate 32 [0])
                     else None),
      resample = example_resample,
      torch_hann_window = example_hann,
      stft = example_stft,
      librosa_mel_fn = (\<lambda>sr nfft nmels lo hi. replicate (nat nmels) (replicate (nat (nfft div 2 + 1)) 1)),
      melscale_fbanks = (\<lambda>nfreqs lo hi nmels sr. replicate (nat nmels) (replicate (nat nfreqs) 1)),
      seed_state = (\<lambda>s i. nat \<bar>s\<bar> + i)\<rparr>"

definition example_heap :: heap where
  "example_heap =
     (\<lambda>r. if r = 0 then [''a.wav'', ''b.wav'', ''c.wav'', ''d.wav'', ''e.wav'', ''f.wav''] else [])"

text \<open>
  Constructor arguments for the examples: frames of one sample at hop one, no
  splitting, one reuse of the cached waveform, target rate \<open>22050\<close>.
\<close>

definition example_args :: dataset_args where
  "example_args =
     \<lparr>segment_size = 2, n_fft = 1, num_mels = 1, hop_size = 1, win_size = 1,
      sampling_rate = 22050, fmin = 0, fmax = Some 8000, split = False, n_cache_reuse = 1,
      device = None, fmax_loss = None, fine_tuning = False, base_mels_path = Some ''mels''\<rparr>"

definition example_dataset :: "dataset_args \<Rightarrow> mel_dataset" where
  "example_dataset a = snd (snd (MelDataset_init example_env example_heap (\<lambda>i. 0) 0 a False))"

section \<open>Properties of the library operations\<close>

lemma py_slice_split: "py_slice xs None (Some k) @ py_slice xs (Some k) None = xs"
  by (simp add: py_slice_def)

lemma py_slice_inside:
  assumes "0 \<le> a" and "a \<le> b" and "b \<le> int (length xs)"
  shows "py_slice xs (Some a) (Some b) = take (nat (b - a)) (drop (nat a) xs)"
    and "int (length (py_slice xs (Some a) (Some b))) = b - a"
  using assms by (auto simp: py_slice_def slice_bound_def nat_diff_distrib Let_def)

lemma py_round_nonneg: "0 \<le> x \<Longrightarrow> 0 \<le> py_round x"
  by (simp add: py_round_def Let_def)

lemma py_round_pos: "0 < py_round x \<Longrightarrow> 0 < x"
proof (rule ccontr)
  assume p: "0 < py_round x" and "\<not> 0 < x"
  then have x: "x \<le> 0" by simp
  show False
  proof (cases "x = 0")
    case True
    then show ?thesis using p by (simp add: py_round_def)
  next
    case False
    then have "x < 0" using x by simp
    then have "\<lfloor>x\<rfloor> \<le> - 1" by (simp add: floor_le_iff)
    then have "py_round x \<le> 0" by (simp add: py_round_def Let_def)
    then show ?thesis using p by simp
  qed
qed

lemma py_round_two: "py_round 2 = 2"
  by (simp add: py_round_def Let_def)

lemma length_shuffle_loop: "length (fst (shuffle_loop i xs g)) = length xs"
  by (induction i xs g rule: shuffle_loop.induct) (simp_all add: split_beta Let_def)

lemma length_shuffle: "length (fst (shuffle xs g)) = length xs"
  by (simp add: shuffle_def length_shuffle_loop)

lemma mset_shuffle_loop: "i < length xs \<Longrightarrow> mset (fst (shuffle_loop i xs g)) = mset xs"
proof (induction i xs g rule: shuffle_loop.induct)
  case (1 xs g)
  then show ?case by simp
next
  case (2 i xs g)
  have j: "g 0 mod (Suc i + 1) < length xs"
    using "2.prems" by (metis Suc_eq_plus1 less_Suc_eq_le mod_less_divisor order_le_less_trans zero_less_Suc)
  have sw: "mset (xs[Suc i := xs ! (g 0 mod (Suc i + 1)), g 0 mod (Suc i + 1) := xs ! Suc i]) = mset xs"
    using "2.prems" j by (simp add: mset_swap)
  show ?case
    using "2.IH" [of "(g 0 mod (Suc i + 1), \<lambda>i. g (Suc i))" "g 0 mod (Suc i + 1)" "\<lambda>i. g (Suc i)"] "2.prems" sw
    by (simp add: randbelow_def)
qed

lemma mset_shuffle: "mset (fst (shuffle xs g)) = mset xs"
proof (cases xs)
  case Nil
  then show ?thesis by (simp add: shuffle_def)
next
  case (Cons x ys)
  then show ?thesis by (simp add: shuffle_def mset_shuffle_loop)
qed

lemma randint_range:
  assumes "a \<le> b"
  shows "\<exists>r g'. randint a b g = Inr (r, g') \<and> a \<le> r \<and> r \<le> b"
proof -
  have "int (g 0 mod nat (b - a + 1)) < b - a + 1"
    using assms by (metis add_strict_increasing2 diff_ge_0_iff_ge mod_less_divisor nat_int
        zero_less_nat_eq zless_nat_conj zero_less_one)
  then show ?thesis using assms by (simp add: randint_def randbelow_def)
qed

section \<open>The transform\<close>

text \<open>
  The transform returns the projected power spectrogram exactly when \<^verbatim>\<open>torch.stft\<close>
  accepts the padded waveform, and raises otherwise.
\<close>

lemma MelSpectrogram_accepted:
  assumes "stft_accepts nfft hop win (length (zero_pad p x))"
  shows "MelSpectrogram E sr nfft win hop lo hi p nmels pw x
    = Inr (map (\<lambda>frame. mat_vec (melscale_fbanks E (nfft div 2 + 1) lo hi nmels sr)
                           (map (\<lambda>z. cmod z ^ pw) frame))
            (stft E nfft hop win (torch_hann_window E win) (zero_pad p x)))"
  using assms by (simp add: MelSpectrogram_def Let_def)

lemma MelSpectrogram_refused:
  assumes "\<not> stft_accepts nfft hop win (length (zero_pad p x))"
  shows "MelSpectrogram E sr nfft win hop lo hi p nmels pw x = Inl RuntimeError"
  using assms by (simp add: MelSpectrogram_def Let_def)

lemma MelSpectrogram_result:
  assumes "MelSpectrogram E sr nfft win hop lo hi p nmels pw x = Inr m"
  shows "m = map (\<lambda>frame. mat_vec (melscale_fbanks E (nfft div 2 + 1) lo hi nmels sr)
                           (map (\<lambda>z. cmod z ^ pw) frame))
            (stft E nfft hop win (torch_hann_window E win) (zero_pad p x))"
  using assms by (simp add: MelSpectrogram_def Let_def split: if_splits)

section \<open>Loading and the one-slot cache\<close>

text \<open>
  Loading changes the cache attributes only. A miss stores the waveform as it was read,
  before resampling; a hit returns what is stored.
\<close>

lemma getitem_load_keeps:
  "fine_tuning (fst (getitem_load E d f)) = fine_tuning d"
  "split (fst (getitem_load E d f)) = split d"
  "segment_size (fst (getitem_load E d f)) = segment_size d"
  "hop_size (fst (getitem_load E d f)) = hop_size d"
  "base_mels_path (fst (getitem_load E d f)) = base_mels_path d"
  "mel_spec (fst (getitem_load E d f)) = mel_spec d"
  by (simp_all add: getitem_load_def Let_def split: option.splits sum.splits prod.splits)

lemma getitem_load_miss_caches_raw:
  assumes "cache_ref_count d = 0" and "wav_read E f = Some (file_rate, data)"
  shows "cached_wav (fst (getitem_load E d f)) = Some (map (\<lambda>v. real_of_int v / 32768) data)"
  using assms by (simp add: getitem_load_def Let_def split: sum.splits)

lemma getitem_load_hit:
  assumes "cache_ref_count d \<noteq> 0" and "cached_wav d = Some audio"
  shows "snd (getitem_load E d f) = Inr audio"
  using assms by (simp add: getitem_load_def Let_def)

lemma getitem_load_second_call:
  assumes "cache_ref_count d = 0" and "n_cache_reuse d \<noteq> 0"
    and "wav_read E f = Some (file_rate, data)"
    and "0 < file_rate"
    and "0 < py_round (of_int (int (length data) * sampling_rate d) / of_int file_rate)"
  shows "snd (getitem_load E (fst (getitem_load E d f)) f')
           = Inr (map (\<lambda>v. real_of_int v / 32768) data)"
proof -
  let ?q = "(of_int (int (length data) * sampling_rate d) / of_int file_rate) :: rat"
  have "0 < ?q" using assms(5) by (rule py_round_pos)
  then have "data \<noteq> []" by auto
  then have c: "cache_ref_count (fst (getitem_load E d f)) \<noteq> 0"
    using assms by (simp add: getitem_load_def Let_def py_truediv_def resample_to_def)
  show ?thesis
    using getitem_load_hit [OF c getitem_load_miss_caches_raw [OF assms(1,3)]] .
qed

section \<open>Facts about the example inputs\<close>

lemma example_dataset_fields:
  "cache_ref_count (example_dataset a) = 0"
  "cached_wav (example_dataset a) = None"
  "audio_files (example_dataset a) = 0"
  "sampling_rate (example_dataset a) = sampling_rate a"
  "segment_size (example_dataset a) = segment_size a"
  "hop_size (example_dataset a) = hop_size a"
  "split (example_dataset a) = split a"
  "fine_tuning (example_dataset a) = fine_tuning a"
  "n_cache_reuse (example_dataset a) = n_cache_reuse a"
  "base_mels_path (example_dataset a) = base_mels_path a"
  by (simp_all add: example_dataset_def MelDataset_init_def Let_def)

lemma example_dataset_init:
  "MelDataset_init example_env example_heap (\<lambda>i. 0) 0 a False
     = (example_heap, seed_state example_env 1234, example_dataset a)"
  by (simp add: example_dataset_def MelDataset_init_def Let_def)

lemma example_dataset_fresh:
  "(example_dataset a)\<lparr>cached_wav := None, cache_ref_count := 0\<rparr> = example_dataset a"
  by (simp add: example_dataset_def MelDataset_init_def Let_def)

lemma example_index:
  "py_index (example_heap 0) 0 = Inr ''a.wav''"
  "py_index (example_heap 0) 1 = Inr ''b.wav''"
  "py_index (example_heap 0) 2 = Inr ''c.wav''"
  "py_index (example_heap 0) 3 = Inr ''d.wav''"
  "py_index (example_heap 0) 4 = Inr ''e.wav''"
  "py_index (example_heap 0) 5 = Inr ''f.wav''"
  by (simp_all add: example_heap_def py_index_def)

lemma example_paths:
  "path_join ''mels'' (splitext_root (path_tail ''c.wav'') @ ''.npy'') = ''mels/c.npy''"
  "path_join ''mels'' (splitext_root (path_tail ''d.wav'') @ ''.npy'') = ''mels/d.npy''"
  "path_join ''mels'' (splitext_root (path_tail ''e.wav'') @ ''.npy'') = ''mels/e.npy''"
  by (simp_all add: path_join_def splitext_root_def path_tail_def Let_def)


lemma example_stft_one: "example_stft 1 1 1 [1] [v] = [[of_real v]]"
  by (simp add: example_stft_def)

lemma example_load_same_rate:
  assumes "wav_read example_env f = Some (22050, data)" and "sampling_rate a = 22050"
  shows "getitem_load example_env (example_dataset a) f
    = ((example_dataset a)\<lparr>cached_wav := Some (map (\<lambda>v. real_of_int v / 32768) data),
          cache_ref_count := n_cache_reuse a\<rparr>, Inr (map (\<lambda>v. real_of_int v / 32768) data))"
  using assms by (simp add: getitem_load_def example_dataset_fields Let_def)

lemma example_load_b:
  assumes "sampling_rate a = 22050"
  shows "getitem_load example_env (example_dataset a) ''b.wav''
     = ((example_dataset a)\<lparr>cached_wav := Some [1 / 2, 0, - 1 / 2, 0],
          cache_ref_count := n_cache_reuse a\<rparr>, Inr [1 / 2, - 1 / 2])"
proof -
  have rs: "example_resample [1 / 2, 0, - 1 / 2, 0] 2 = [1 / 2, - 1 / 2]"
  proof -
    have u: "[0..<2] = [0, Suc 0]" by (simp add: numeral_2_eq_2)
    show ?thesis unfolding example_resample_def u by simp
  qed
  show ?thesis
    using rs assms by (simp add: getitem_load_def example_dataset_fields example_env_def
        py_truediv_def py_round_two resample_to_def Let_def)
qed

lemma py_int_nonpos: "x \<le> 0 \<Longrightarrow> py_int x \<le> 0"
  by (auto simp: py_int_def ceiling_le_iff)

lemma example_mel_spec:
  assumes "n_fft a = 1" and "win_size a = 1" and "0 < hop_size a"
  shows "mel_spec (example_dataset a) x =
     (if x = [] then Inl RuntimeError
      else Inr (map (\<lambda>frame. mat_vec (melscale_fbanks example_env 1 (fmin a) (fmax a) (num_mels a)
                                          (sampling_rate a))
                               (map (\<lambda>z. (cmod z)\<^sup>2) frame))
                  (stft example_env 1 (hop_size a) 1 (torch_hann_window example_env 1) x)))"
proof -
  have "rat_of_int (1 - hop_size a) / 2 \<le> 0" using assms(3) by simp
  then have p: "\<not> 0 < py_int (rat_of_int (1 - hop_size a) / 2)"
    using py_int_nonpos by (simp add: not_less)
  have m: "mel_spec (example_dataset a)
      = MelSpectrogram example_env (sampling_rate a) 1 1 (hop_size a) (fmin a) (fmax a)
          (py_int (rat_of_int (1 - hop_size a) / 2)) (num_mels a) 2"
    using assms(1,2) by (simp add: example_dataset_def MelDataset_init_def Let_def)
  have z: "zero_pad (py_int (rat_of_int (1 - hop_size a) / 2)) x = x"
    using p by (simp add: zero_pad_def)
  show ?thesis
  proof (cases "x = []")
    case True
    then show ?thesis
      unfolding m using z by (simp add: MelSpectrogram_def stft_accepts_def)
  next
    case False
    then have "stft_accepts 1 (hop_size a) 1 (length (zero_pad (py_int (rat_of_int (1 - hop_size a) / 2)) x))"
      using assms(3) z by (cases x) (simp_all add: stft_accepts_def)
    then show ?thesis
      unfolding m using False z by (simp add: MelSpectrogram_accepted)
  qed
qed

lemma example_mel_spec_accepts:
  assumes "n_fft a = 1" and "win_size a = 1" and "0 < hop_size a" and "x \<noteq> []"
  shows "\<exists>m. mel_spec (example_dataset a) x = Inr m"
  using example_mel_spec [OF assms(1,2,3), of x] assms(4) by simp

lemma example_mel_spec_half: "mel_spec (example_dataset example_args) [1 / 2] = Inr [[1 / 4]]"
proof -
  have st: "stft example_env 1 1 1 (torch_hann_window example_env 1) [1 / 2] = [[of_real (1 / 2)]]"
    by (simp add: example_env_def example_hann_def example_stft_one)
  have fb: "melscale_fbanks example_env 1 0 (Some 8000) 1 22050 = [[1]]"
    by (simp add: example_env_def)
  have "mel_spec (example_dataset example_args) [1 / 2]
      = Inr (map (\<lambda>frame. mat_vec (melscale_fbanks example_env 1 0 (Some 8000) 1 22050)
                               (map (\<lambda>z. (cmod z)\<^sup>2) frame))
                  (stft example_env 1 1 1 (torch_hann_window example_env 1) [1 / 2]))"
    using example_mel_spec [of example_args "[1 / 2]"] by (simp add: example_args_def)
  then show ?thesis
    unfolding st fb by (simp add: mat_vec_def power2_eq_square norm_divide)
qed

lemma example_getitem_a:
  "getitem example_env example_heap (example_dataset example_args) (\<lambda>i. 0) 0
      = (((example_dataset example_args)\<lparr>cached_wav := Some [1 / 2], cache_ref_count := 1\<rparr>, \<lambda>i. 0),
         Inr ([[1 / 4]], [1 / 2], ''a.wav'', [[1 / 4]]))"
proof -
  let ?d' = "(example_dataset example_args)\<lparr>cached_wav := Some (map (\<lambda>v. real_of_int v / 32768) [16384]),
          cache_ref_count := n_cache_reuse example_args\<rparr>"
  have w: "wav_read example_env ''a.wav'' = Some (22050, [16384])"
    by (simp add: example_env_def)
  have l: "getitem_load example_env (example_dataset example_args) ''a.wav''
      = (?d', Inr (map (\<lambda>v. real_of_int v / 32768) [16384]))"
    by (rule example_load_same_rate [OF w]) (simp add: example_args_def)
  show ?thesis
    using l example_mel_spec_half
    by (simp add: getitem_def example_dataset_fields example_index example_args_def
        segment_plain_def)
qed

lemma ceiling_ten_quarters: "\<lceil>rat_of_int 10 / rat_of_int 4\<rceil> = (3 :: int)"
  by (simp add: ceiling_eq_iff)

section \<open>Corpus indexing\<close>

text \<open>
  A level whose values are lists is indexed as described: the directory that is absent
  adds nothing and raises nothing.
\<close>

lemma recursive_file_extract_flat_level:
  "recursive_file_extract example_disk ''/data/a/'' [(''b'', ClsList [''x'', ''y''])] []
     = Inr [''/data/a/b/x/f1'', ''/data/a/b/x/f2'']"
  by (simp add: recursive_file_extract_def extract_children_def child_files_def
      example_disk_def path_join_def)

text \<open>
  A key whose value is a nested dictionary never lets the loop go on: the recursive call
  raises, or its list does not unpack into two targets, or it does and then a string is
  added to a list.
\<close>

lemma rfe_loop_nested_raises:
  "\<exists>e. rfe_loop fs base ((key, ClsMap m) # rest) i filename_list cls_queue = Inl e"
  by (auto simp: unpack2_def list_add_def split: sum.splits list.splits pyval.splits)

text \<open>
  Claim C1. For the configuration \<^verbatim>\<open>{"a": {"b": ["x", "y"]}}\<close> and the base path
  \<^verbatim>\<open>/data/\<close> on the example disk, indexing is claimed to return the two paths
  \<^verbatim>\<open>/data/a/b/x/f1\<close> and \<^verbatim>\<open>/data/a/b/x/f2\<close> without an error. The code raises instead:
  the recursive call returns the list of the two paths, the tuple assignment binds
  \<^verbatim>\<open>flist\<close> to the first path, and \<^verbatim>\<open>filename_list + flist\<close> raises \<^verbatim>\<open>TypeError\<close>.
\<close>

theorem recursive_file_extract_nested_example_raises:
  "recursive_file_extract example_disk ''/data/''
     [(''a'', ClsMap [(''b'', ClsList [''x'', ''y''])])] [] = Inl TypeError"
  by (simp add: recursive_file_extract_def extract_children_def child_files_def
      example_disk_def path_join_def unpack2_def list_add_def)

section \<open>The training and validation split\<close>

text \<open>
  Claim C7. When the file lists of all base paths have been gathered into a list of
  \<open>N\<close> items and \<^verbatim>\<open>num_validation\<close> is one tenth, \<^verbatim>\<open>get_dataset_filelist\<close> returns a
  training list of exactly \<open>\<lfloor>N * 0.9\<rfloor>\<close> items and a validation list of the remaining
  \<open>N - \<lfloor>N * 0.9\<rfloor>\<close> items, and the training list followed by the validation list is the
  shuffled list: no item is in both and none is left out.
\<close>

theorem get_dataset_filelist_split:
  assumes "gather_files fs (cls_pth h) (base_pth h) None = Inr (Some filelist)"
    and "num_validation h = 1 / 10"
  shows "\<exists>training validation g'.
           get_dataset_filelist fs h g = Inr ((training, validation), g') \<and>
           training @ validation = fst (shuffle filelist g) \<and>
           int (length training) = \<lfloor>rat_of_nat (length filelist) * (9 / 10)\<rfloor> \<and>
           length validation = length filelist - length training"
proof -
  obtain shuffled g' where sh: "shuffle filelist g = (shuffled, g')"
    by (cases "shuffle filelist g")
  have len: "length shuffled = length filelist"
    using length_shuffle [of filelist g] sh by simp
  define k where "k = py_int (of_nat (length shuffled) * (1 - num_validation h))"
  have k: "k = \<lfloor>rat_of_nat (length filelist) * (9 / 10)\<rfloor>"
  proof -
    have "1 - num_validation h = 9 / 10" by (simp add: assms(2))
    then have "k = py_int (rat_of_nat (length shuffled) * (9 / 10))"
      unfolding k_def by (rule arg_cong)
    then show ?thesis unfolding len by (simp add: py_int_def)
  qed
  have k0: "0 \<le> k" unfolding k by simp
  have "rat_of_nat (length filelist) * (9 / 10) \<le> rat_of_nat (length filelist)"
    by simp
  then have kle: "k \<le> int (length filelist)"
    unfolding k by (metis floor_mono floor_of_nat)
  have res: "get_dataset_filelist fs h g =
      Inr ((py_slice shuffled None (Some k), py_slice shuffled (Some k) None), g')"
    using assms(1) sh by (simp add: get_dataset_filelist_def k_def Let_def)
  have l1: "int (length (py_slice shuffled None (Some k))) = k"
    using k0 kle len by (simp add: py_slice_def slice_bound_def)
  have l2: "length (py_slice shuffled (Some k) None) = length filelist - nat k"
    using k0 kle len by (simp add: py_slice_def slice_bound_def)
  show ?thesis
    using res l1 l2 sh k py_slice_split [of shuffled k]
    by (intro exI [of _ "py_slice shuffled None (Some k)"]
          exI [of _ "py_slice shuffled (Some k) None"] exI [of _ g'])
       (simp add: nat_eq_iff)
qed

theorem get_dataset_filelist_split_witness:
  "gather_files example_disk (cls_pth example_hparams) (base_pth example_hparams) None
     = Inr (Some [''/data/a/b/x/f1'', ''/data/a/b/x/f2'']) \<and>
   num_validation example_hparams = 1 / 10 \<and>
   (\<exists>training validation g'.
      get_dataset_filelist example_disk example_hparams (\<lambda>i. 0)
        = Inr ((training, validation), g') \<and>
      training @ validation
        = fst (shuffle [''/data/a/b/x/f1'', ''/data/a/b/x/f2''] (\<lambda>i. 0)) \<and>
      int (length training) = 1 \<and> length validation = 1)"
proof -
  have g: "gather_files example_disk (cls_pth example_hparams) (base_pth example_hparams) None
     = Inr (Some [''/data/a/b/x/f1'', ''/data/a/b/x/f2''])"
    by (simp add: example_hparams_def recursive_file_extract_flat_level)
  have n: "num_validation example_hparams = 1 / 10"
    by (simp add: example_hparams_def)
  have f: "\<lfloor>rat_of_nat (length [''/data/a/b/x/f1'', ''/data/a/b/x/f2'']) * (9 / 10)\<rfloor> = 1"
    by (simp add: floor_eq_iff)
  show ?thesis
    using g n get_dataset_filelist_split [OF g n, of "\<lambda>i. 0"] unfolding f
    by auto
qed

section \<open>The caches of \<^verbatim>\<open>mel_spectrogram\<close>\<close>

text \<open>
  As long as every key of \<^verbatim>\<open>mel_basis\<close> is a string, the membership test on \<^verbatim>\<open>fmax\<close>
  fails, the filter bank is computed again, and the new key is a string again.
\<close>

lemma fmax_key_not_str: "fmax_key k \<noteq> KStr s"
  by (simp add: fmax_key_def split: option.splits)

lemma mel_spectrogram_recompute:
  assumes "\<And>k. mel_basis gl (fmax_key k) = None"
  shows "mel_fn_calls (fst (mel_spectrogram E gl y dev nfft nmels sr hop win lo hi)) = Suc (mel_fn_calls gl)"
    and "mel_basis (fst (mel_spectrogram E gl y dev nfft nmels sr hop win lo hi)) (fmax_key k') = None"
  using assms by (simp_all add: mel_spectrogram_def Let_def fmax_key_not_str)

text \<open>
  Claim C3. The second call of \<^verbatim>\<open>mel_spectrogram\<close> with the same \<^verbatim>\<open>fmax\<close> on the same
  device is claimed to reuse the stored basis. Starting from the empty dictionaries of a
  freshly loaded module, the code evaluates \<^verbatim>\<open>librosa_mel_fn\<close> in the first call and
  again in the second: after the two calls it has been evaluated twice.
\<close>

theorem mel_spectrogram_second_call_recomputes:
  "mel_fn_calls (fst (mel_spectrogram E
      (fst (mel_spectrogram E initial_globals y1 dev nfft nmels sr hop win lo hi))
      y2 dev nfft nmels sr hop win lo hi)) = 2"
proof -
  have 0: "\<And>k. mel_basis initial_globals (fmax_key k) = None"
    by (simp add: initial_globals_def)
  have 1: "\<And>k. mel_basis (fst (mel_spectrogram E initial_globals y1 dev nfft nmels sr hop win lo hi)) (fmax_key k) = None"
    using mel_spectrogram_recompute(2) [OF 0] by simp
  show ?thesis
    using mel_spectrogram_recompute(1) [OF 1] mel_spectrogram_recompute(1) [OF 0]
    by (simp add: initial_globals_def)
qed

section \<open>The constructor\<close>

text \<open>
  Claim C10. Constructing the dataset with \<^verbatim>\<open>shuffle=True\<close> seeds the shared generator
  with \<open>1234\<close> and then shuffles the caller's list object in place: the object's
  \<^verbatim>\<open>audio_files\<close> is the caller's reference, only that list changes in the store, it
  becomes the shuffle of its old contents under the state \<^verbatim>\<open>seed(1234)\<close> produces, and
  it keeps its elements. Nothing depends on the state \<open>g\<close> the generator had when the
  constructor was called, which is all a configured seed could have influenced: two
  constructions from different such states give the same store, generator and object.
\<close>

theorem MelDataset_init_shuffle_fixed_seed:
  "MelDataset_init E heap g1 training_files a True
     = MelDataset_init E heap g2 training_files a True \<and>
   (case MelDataset_init E heap g1 training_files a True of
      (heap', g', d) \<Rightarrow>
        audio_files d = training_files \<and>
        heap' = heap(training_files := fst (shuffle (heap training_files) (seed_state E 1234))) \<and>
        g' = snd (shuffle (heap training_files) (seed_state E 1234)) \<and>
        mset (heap' training_files) = mset (heap training_files))"
  by (simp add: MelDataset_init_def Let_def split_beta mset_shuffle)

section \<open>Resampling and cache hits\<close>



text \<open>
  One sample at twice the target rate: \<^verbatim>\<open>round(0.5)\<close> is zero, and both paths raise.
\<close>

lemma resample_to_zero_samples_raises:
  "snd (getitem_load example_env (example_dataset example_args) ''f.wav'') = Inl ValueError"
  "inference_wav example_env example_hparams ''f.wav'' = Inl ValueError"
proof -
  have f: "\<lfloor>1 / 2 :: rat\<rfloor> = 0" by (simp add: floor_eq_iff)
  have r: "py_round (1 / 2) = 0" by (simp add: py_round_def Let_def f)
  show "snd (getitem_load example_env (example_dataset example_args) ''f.wav'') = Inl ValueError"
    using r by (simp add: getitem_load_def example_dataset_fields example_args_def example_env_def
        py_truediv_def resample_to_def Let_def)
  show "inference_wav example_env example_hparams ''f.wav'' = Inl ValueError"
    using r by (simp add: inference_wav_def example_hparams_def example_env_def
        py_truediv_def resample_to_def Let_def)
qed

text \<open>
  Claim C4. Every waveform \<^verbatim>\<open>__getitem__\<close> returns is claimed to have been resampled to
  the target rate, on cache hits too. For a file of four samples at \<open>44100\<close> Hz, a target
  rate of \<open>22050\<close> Hz and \<^verbatim>\<open>n_cache_reuse = 1\<close>, the first call returns the two
  resampled samples, and the second call, a cache hit, returns the four samples as
  they were read: \<^verbatim>\<open>cached_wav\<close> is assigned before the resampling.
\<close>

theorem getitem_cache_hit_returns_unresampled:
  "(\<exists>d1 g1 mel1 loss1.
      getitem example_env example_heap (example_dataset example_args) (\<lambda>i. 0) 1
        = ((d1, g1), Inr (mel1, [1 / 2, - 1 / 2], ''b.wav'', loss1)) \<and>
      (\<exists>d2 g2 mel2 loss2.
         getitem example_env example_heap d1 g1 1
           = ((d2, g2), Inr (mel2, [1 / 2, 0, - 1 / 2, 0], ''b.wav'', loss2))))"
proof -
  let ?d = "example_dataset example_args"
  let ?d1 = "?d\<lparr>cached_wav := Some [1 / 2, 0, - 1 / 2, 0], cache_ref_count := 1\<rparr>"
  let ?d2 = "?d\<lparr>cached_wav := Some [1 / 2, 0, - 1 / 2, 0], cache_ref_count := 0\<rparr>"
  have rs: "example_resample [1 / 2, 0, - 1 / 2, 0] 2 = [1 / 2, - 1 / 2]"
  proof -
    have u: "[0..<2] = [0, Suc 0]" by (simp add: numeral_2_eq_2)
    show ?thesis unfolding example_resample_def u by simp
  qed
  have l1: "getitem_load example_env ?d ''b.wav'' = (?d1, Inr [1 / 2, - 1 / 2])"
    using rs by (simp add: getitem_load_def example_dataset_fields example_args_def example_env_def
        py_truediv_def py_round_two resample_to_def Let_def)
  have l2: "getitem_load example_env ?d1 ''b.wav'' = (?d2, Inr [1 / 2, 0, - 1 / 2, 0])"
    by (simp add: getitem_load_def Let_def)
  have a: "n_fft example_args = 1" "win_size example_args = 1" "0 < hop_size example_args"
    by (simp_all add: example_args_def)
  obtain m1 where m1: "mel_spec ?d [1 / 2, - 1 / 2] = Inr m1"
    using example_mel_spec_accepts [OF a, of "[1 / 2, - 1 / 2]"] by auto
  obtain m2 where m2: "mel_spec ?d [1 / 2, 0, - 1 / 2, 0] = Inr m2"
    using example_mel_spec_accepts [OF a, of "[1 / 2, 0, - 1 / 2, 0]"] by auto
  have g1: "getitem example_env example_heap ?d (\<lambda>i. 0) 1
      = ((?d1, \<lambda>i. 0), Inr (m1, [1 / 2, - 1 / 2], ''b.wav'', m1))"
    using l1 m1
    by (simp add: getitem_def example_dataset_fields example_index example_args_def
        segment_plain_def)
  have g2: "getitem example_env example_heap ?d1 (\<lambda>i. 0) 1
      = ((?d2, \<lambda>i. 0), Inr (m2, [1 / 2, 0, - 1 / 2, 0], ''b.wav'', m2))"
    using l2 m2
    by (simp add: getitem_def example_dataset_fields example_index example_args_def
        segment_plain_def)
  show ?thesis
    unfolding g1 using g2 by simp
qed

section \<open>Segments\<close>

text \<open>
  Claim C8. Without fine-tuning and with splitting, for a waveform of any length \<open>L\<close>
  and a segment size \<open>S \<ge> 0\<close>, the audio segment of \<^verbatim>\<open>__getitem__\<close> has exactly \<open>S\<close>
  samples: when \<open>L \<ge> S\<close> the \<open>S\<close> samples from the start that
  \<^verbatim>\<open>random.randint(0, L - S)\<close> drew, which lies in \<open>[0, L - S]\<close>, and when \<open>L < S\<close> the
  waveform followed by \<open>S - L\<close> zeros. \<^verbatim>\<open>__getitem__\<close> returns this segment with the
  transform of it as \<^verbatim>\<open>mel\<close> and \<^verbatim>\<open>mel_loss\<close>, unless the transform refuses the segment,
  in which case its exception is raised.
\<close>

theorem plain_segment_length:
  assumes mode: "\<not> fine_tuning d" "split d"
    and size: "0 \<le> segment_size d"
    and idx: "py_index (heap (audio_files d)) index = Inr filename"
    and load: "getitem_load E d filename = (d', Inr full)"
  shows "\<exists>audio g'.
           int (length audio) = segment_size d \<and>
           (if segment_size d \<le> int (length full)
            then \<exists>start. randint 0 (int (length full) - segment_size d) g = Inr (start, g') \<and>
                   0 \<le> start \<and> start \<le> int (length full) - segment_size d \<and>
                   audio = take (nat (segment_size d)) (drop (nat start) full)
            else g' = g \<and>
                 audio = full @ replicate (nat (segment_size d - int (length full))) 0) \<and>
           getitem E heap d g index
             = ((d', g'), case mel_spec d' audio of
                            Inl e \<Rightarrow> Inl e
                          | Inr mel \<Rightarrow> Inr (mel, audio, filename, mel))"
proof -
  have k: "split d' = split d" "segment_size d' = segment_size d"
    using getitem_load_keeps(2,3) [of E d filename] load by simp_all
  have out: "getitem E heap d g index
      = ((d', g'), case mel_spec d' audio of Inl e \<Rightarrow> Inl e
                   | Inr mel \<Rightarrow> Inr (mel, audio, filename, mel))"
    if "segment_plain d' full g = Inr (audio, g')" for audio g'
    using idx load that mode(1) by (simp add: getitem_def split: sum.splits)
  show ?thesis
  proof (cases "segment_size d \<le> int (length full)")
    case True
    then obtain start g' where r: "randint 0 (int (length full) - segment_size d) g = Inr (start, g')"
      and s: "0 \<le> start" "start \<le> int (length full) - segment_size d"
      using randint_range [of 0 "int (length full) - segment_size d" g] by auto
    let ?seg = "py_slice full (Some start) (Some (start + segment_size d))"
    have sl: "?seg = take (nat (segment_size d)) (drop (nat start) full)"
      "int (length ?seg) = segment_size d"
      using py_slice_inside [of start "start + segment_size d" full] s size by simp_all
    have seg: "segment_plain d' full g = Inr (?seg, g')"
      using True r mode(2) k by (simp add: segment_plain_def Let_def)
    show ?thesis
      using out [OF seg] True r s sl by (intro exI [of _ ?seg] exI [of _ g']) auto
  next
    case False
    let ?seg = "full @ replicate (nat (segment_size d - int (length full))) 0"
    have seg: "segment_plain d' full g = Inr (?seg, g)"
      using False mode(2) k by (simp add: segment_plain_def pad_right_def)
    have len: "int (length ?seg) = segment_size d"
      using False by simp
    show ?thesis
      using out [OF seg] False len by (intro exI [of _ ?seg] exI [of _ g]) auto
  qed
qed

theorem plain_segment_length_witness:
  "\<not> fine_tuning (example_dataset (example_args\<lparr>split := True\<rparr>)) \<and>
   split (example_dataset (example_args\<lparr>split := True\<rparr>)) \<and>
   0 \<le> segment_size (example_dataset (example_args\<lparr>split := True\<rparr>)) \<and>
   py_index (example_heap (audio_files (example_dataset (example_args\<lparr>split := True\<rparr>)))) 0
     = Inr ''a.wav'' \<and>
   (\<exists>d' mel g' loss.
      getitem example_env example_heap (example_dataset (example_args\<lparr>split := True\<rparr>))
        (\<lambda>i. 0) 0 = ((d', g'), Inr (mel, [1 / 2, 0], ''a.wav'', loss))) \<and>
   py_index (example_heap (audio_files
       (example_dataset (example_args\<lparr>segment_size := 1, split := True\<rparr>)))) 1
     = Inr ''b.wav'' \<and>
   randint 0 1 (\<lambda>i. 1) = Inr (1, \<lambda>i. 1) \<and>
   (\<exists>d' mel loss.
      getitem example_env example_heap
        (example_dataset (example_args\<lparr>segment_size := 1, split := True\<rparr>)) (\<lambda>i. 1) 1
        = ((d', \<lambda>i. 1), Inr (mel, [- 1 / 2], ''b.wav'', loss)))"
proof -
  let ?a = "example_args\<lparr>split := True\<rparr>"
  let ?d = "example_dataset ?a"
  let ?d' = "?d\<lparr>cached_wav := Some (map (\<lambda>v. real_of_int v / 32768) [16384]),
          cache_ref_count := n_cache_reuse ?a\<rparr>"
  have mode: "\<not> fine_tuning ?d" "split ?d"
    by (simp_all add: example_dataset_fields example_args_def)
  have size: "0 \<le> segment_size ?d"
    by (simp add: example_dataset_fields example_args_def)
  have idx: "py_index (example_heap (audio_files ?d)) 0 = Inr ''a.wav''"
    by (simp add: example_dataset_fields example_index)
  have w: "wav_read example_env ''a.wav'' = Some (22050, [16384])"
    by (simp add: example_env_def)
  have load: "getitem_load example_env ?d ''a.wav''
      = (?d', Inr (map (\<lambda>v. real_of_int v / 32768) [16384]))"
    by (rule example_load_same_rate [OF w]) (simp add: example_args_def)
  have short: "\<not> segment_size ?d \<le> int (length (map (\<lambda>v. real_of_int v / 32768) [16384]))"
    by (simp add: example_dataset_fields example_args_def)
  have pad: "map (\<lambda>v. real_of_int v / 32768) [16384]
      @ replicate (nat (segment_size ?d - int (length (map (\<lambda>v. real_of_int v / 32768) [16384])))) 0
      = [1 / 2, 0]"
    by (simp add: example_dataset_fields example_args_def)
  have ms: "mel_spec ?d' = mel_spec ?d" by simp
  have acc: "\<exists>m. mel_spec ?d' [1 / 2, 0] = Inr m"
    unfolding ms by (rule example_mel_spec_accepts) (simp_all add: example_args_def)
  have first: "\<exists>d' mel g' loss.
      getitem example_env example_heap ?d (\<lambda>i. 0) 0 = ((d', g'), Inr (mel, [1 / 2, 0], ''a.wav'', loss))"
    using plain_segment_length [where heap = example_heap and g = "\<lambda>i. 0",
        OF mode size idx load] short pad acc
    by (simp only: if_False) force

  let ?b = "example_args\<lparr>segment_size := 1, split := True\<rparr>"
  let ?e = "example_dataset ?b"
  let ?e' = "?e\<lparr>cached_wav := Some [1 / 2, 0, - 1 / 2, 0], cache_ref_count := n_cache_reuse ?b\<rparr>"
  have mode2: "\<not> fine_tuning ?e" "split ?e"
    by (simp_all add: example_dataset_fields example_args_def)
  have size2: "0 \<le> segment_size ?e"
    by (simp add: example_dataset_fields)
  have idx2: "py_index (example_heap (audio_files ?e)) 1 = Inr ''b.wav''"
    by (simp add: example_dataset_fields example_index)
  have load2: "getitem_load example_env ?e ''b.wav'' = (?e', Inr [1 / 2, - 1 / 2])"
    by (rule example_load_b) (simp add: example_args_def)
  have draw: "randint 0 1 (\<lambda>i. 1) = Inr (1, \<lambda>i. 1)"
    by (simp add: randint_def randbelow_def)
  have long: "segment_size ?e \<le> int (length [1 / 2, - 1 / 2 :: real])"
    by (simp add: example_dataset_fields)
  have range: "int (length [1 / 2, - 1 / 2 :: real]) - segment_size ?e = 1"
    by (simp add: example_dataset_fields)
  have ms2: "mel_spec ?e' = mel_spec ?e" by simp
  obtain m where m: "mel_spec ?e' [- 1 / 2] = Inr m"
    unfolding ms2 using example_mel_spec_accepts [of ?b "[- 1 / 2]"]
    by (auto simp: example_args_def)
  obtain audio g' where res: "getitem example_env example_heap ?e (\<lambda>i. 1) 1
             = ((?e', g'), case mel_spec ?e' audio of
                            Inl e \<Rightarrow> Inl e
                          | Inr mel \<Rightarrow> Inr (mel, audio, ''b.wav'', mel))"
    and st: "\<exists>start. randint 0 1 (\<lambda>i. 1) = Inr (start, g') \<and>
                   audio = take (nat (segment_size ?e)) (drop (nat start) [1 / 2, - 1 / 2])"
    using plain_segment_length [where heap = example_heap and g = "\<lambda>i. 1",
        OF mode2 size2 idx2 load2] long unfolding range
    by (simp only: if_True) blast
  have g': "g' = (\<lambda>i. 1)" and au: "audio = [- 1 / 2]"
    using st draw by (auto simp: example_dataset_fields)
  have second: "\<exists>d' mel loss.
      getitem example_env example_heap ?e (\<lambda>i. 1) 1
        = ((d', \<lambda>i. 1), Inr (mel, [- 1 / 2], ''b.wav'', loss))"
    using res m unfolding g' au by simp
  show ?thesis
    using mode size idx first idx2 draw second by blast
qed

text \<open>
  With \<^verbatim>\<open>segment_size = 0\<close> the segment is empty, the transform refuses it, and
  \<^verbatim>\<open>__getitem__\<close> raises.
\<close>

lemma getitem_empty_segment_raises:
  "snd (getitem example_env example_heap
          (example_dataset (example_args\<lparr>segment_size := 0, split := True\<rparr>)) (\<lambda>i. 0) 0)
     = Inl RuntimeError"
proof -
  let ?a = "example_args\<lparr>segment_size := 0, split := True\<rparr>"
  let ?d = "example_dataset ?a"
  let ?d' = "?d\<lparr>cached_wav := Some (map (\<lambda>v. real_of_int v / 32768) [16384]),
          cache_ref_count := n_cache_reuse ?a\<rparr>"
  have w: "wav_read example_env ''a.wav'' = Some (22050, [16384])"
    by (simp add: example_env_def)
  have l: "getitem_load example_env ?d ''a.wav''
      = (?d', Inr (map (\<lambda>v. real_of_int v / 32768) [16384]))"
    by (rule example_load_same_rate [OF w]) (simp add: example_args_def)
  have r: "randint 0 1 (\<lambda>i. 0) = Inr (0, \<lambda>i. 0)"
    by (simp add: randint_def randbelow_def)
  have s: "segment_plain ?d' (map (\<lambda>v. real_of_int v / 32768) [16384]) (\<lambda>i. 0) = Inr ([], \<lambda>i. 0)"
    using r by (simp add: segment_plain_def example_dataset_fields py_slice_def slice_bound_def)
  have m: "mel_spec ?d' [] = Inl RuntimeError"
    using example_mel_spec [of ?a "[]"] by (simp add: example_args_def)
  show ?thesis
    using l s m
    by (simp add: getitem_def example_dataset_fields example_index example_args_def)
qed

text \<open>
  In the fine-tuning branch the range of the draw is guarded by the length of the audio,
  not by the number of mel frames: with fewer than \<open>frames_per_seg + 1\<close> frames the
  upper bound is negative and \<^verbatim>\<open>random.randint\<close> raises.
\<close>

lemma fine_tuning_short_mel_raises:
  assumes "split d" and "base_mels_path d = Some dir"
    and "np_load E (path_join dir (splitext_root (path_tail filename) @ ''.npy'')) = Some mel"
    and "hop_size d \<noteq> 0"
    and "segment_size d \<le> int (length audio)"
    and "int (length mel) < \<lceil>rat_of_int (segment_size d) / rat_of_int (hop_size d)\<rceil> + 1"
  shows "segment_fine_tuning E d filename audio g = Inl ValueError"
  using assms by (simp add: segment_fine_tuning_def py_truediv_def randint_def Let_def)

text \<open>
  Claim C6. The upper bound of every start-offset draw is claimed to be non-negative,
  so that no error comes from an empty range. With \<^verbatim>\<open>segment_size = 8192\<close> and
  \<^verbatim>\<open>hop_size = 256\<close>, a waveform of exactly \<open>8192\<close> samples and its mel of \<open>32\<close> frames,
  the fine-tuning branch calls \<^verbatim>\<open>random.randint(0, -1)\<close> and \<^verbatim>\<open>__getitem__\<close> raises
  \<^verbatim>\<open>ValueError\<close>.
\<close>

theorem fine_tuning_exact_segment_raises:
  "snd (getitem example_env example_heap
          (example_dataset (example_args\<lparr>segment_size := 8192, hop_size := 256, split := True,
             fine_tuning := True\<rparr>)) (\<lambda>i. 0) 4) = Inl ValueError"
proof -
  let ?a = "example_args\<lparr>segment_size := 8192, hop_size := 256, split := True, fine_tuning := True\<rparr>"
  let ?audio = "map (\<lambda>v. real_of_int v / 32768) (replicate 8192 0)"
  let ?d' = "(example_dataset ?a)\<lparr>cached_wav := Some ?audio, cache_ref_count := n_cache_reuse ?a\<rparr>"
  have w: "wav_read example_env ''e.wav'' = Some (22050, replicate 8192 0)"
    by (simp add: example_env_def)
  have l: "getitem_load example_env (example_dataset ?a) ''e.wav'' = (?d', Inr ?audio)"
    by (rule example_load_same_rate [OF w]) (simp add: example_args_def)
  have m: "np_load example_env (path_join ''mels'' (splitext_root (path_tail ''e.wav'') @ ''.npy''))
      = Some (replicate 32 [0])"
    unfolding example_paths by (simp add: example_env_def)
  have c: "\<lceil>rat_of_int 8192 / rat_of_int 256\<rceil> = (32 :: int)"
    by (simp add: ceiling_eq_iff)
  have s: "segment_fine_tuning example_env ?d' ''e.wav'' ?audio (\<lambda>i. 0) = Inl ValueError"
    by (rule fine_tuning_short_mel_raises [where dir = "''mels''" and mel = "replicate 32 [0]"])
       (simp_all add: example_dataset_fields example_args_def m c)
  show ?thesis
    using l s by (simp add: getitem_def example_dataset_fields example_index)
qed

text \<open>
  The claim C5 as stated, for every mel tensor and audio buffer, fails: with
  \<^verbatim>\<open>segment_size = 10\<close> and \<^verbatim>\<open>hop_size = 4\<close>, a waveform of ten samples and a mel of
  five frames, the sliced mel has \<open>\<lceil>10 / 4\<rceil> = 3\<close> frames and the sliced audio has ten
  samples, not \<open>3 * 4 = 12\<close>.
\<close>

theorem fine_tuning_audio_slice_short:
  "\<exists>d' g' mel audio loss.
     getitem example_env example_heap
       (example_dataset (example_args\<lparr>segment_size := 10, hop_size := 4, split := True,
          fine_tuning := True\<rparr>)) (\<lambda>i. 0) 2
       = ((d', g'), Inr (mel, audio, ''c.wav'', loss)) \<and>
     length mel = 3 \<and> length audio = 10 \<and> \<lceil>rat_of_int 10 / rat_of_int 4\<rceil> * 4 = (12 :: int)"
proof -
  let ?a = "example_args\<lparr>segment_size := 10, hop_size := 4, split := True, fine_tuning := True\<rparr>"
  let ?audio = "map (\<lambda>v. real_of_int v / 32768) (replicate 10 0)"
  let ?d' = "(example_dataset ?a)\<lparr>cached_wav := Some ?audio, cache_ref_count := n_cache_reuse ?a\<rparr>"
  let ?seg = "py_slice ?audio (Some 0) (Some 12)"
  have w: "wav_read example_env ''c.wav'' = Some (22050, replicate 10 0)"
    by (simp add: example_env_def)
  have l: "getitem_load example_env (example_dataset ?a) ''c.wav'' = (?d', Inr ?audio)"
    by (rule example_load_same_rate [OF w]) (simp add: example_args_def)
  have m: "np_load example_env (path_join ''mels'' (splitext_root (path_tail ''c.wav'') @ ''.npy''))
      = Some (replicate 5 [0])"
    unfolding example_paths by (simp add: example_env_def)
  have r: "randint 0 1 (\<lambda>i. 0) = Inr (0, \<lambda>i. 0)"
    by (simp add: randint_def randbelow_def)
  have s: "segment_fine_tuning example_env ?d' ''c.wav'' ?audio (\<lambda>i. 0)
      = Inr (py_slice (replicate 5 [0]) (Some 0) (Some 3), ?seg, \<lambda>i. 0)"
    using m r ceiling_ten_quarters
    by (simp add: segment_fine_tuning_def example_dataset_fields example_args_def py_truediv_def)
  have lm: "length (py_slice (replicate 5 [0::real]) (Some 0) (Some 3)) = 3"
    by (simp add: py_slice_def slice_bound_def)
  have la: "length ?seg = 10"
    by (simp add: py_slice_def slice_bound_def)
  have ne: "?seg \<noteq> []" using la by auto
  have ms: "mel_spec ?d' = mel_spec (example_dataset ?a)" by simp
  obtain loss where loss: "mel_spec ?d' ?seg = Inr loss"
    unfolding ms using example_mel_spec_accepts [of ?a ?seg] ne
    by (auto simp: example_args_def)
  have "getitem example_env example_heap (example_dataset ?a) (\<lambda>i. 0) 2
      = ((?d', \<lambda>i. 0), Inr (py_slice (replicate 5 [0]) (Some 0) (Some 3), ?seg, ''c.wav'', loss))"
    using l s loss
    by (simp add: getitem_def example_dataset_fields example_index)
  then show ?thesis
    using lm la ceiling_ten_quarters by simp
qed

text \<open>
  Claim C5, amended. In fine-tuning mode with splitting, when the audio has at least
  \<^verbatim>\<open>segment_size\<close> samples, the mel has at least \<open>frames_per_seg + 1\<close> frames and the
  audio has at least \<open>(frames - 1) * hop_size\<close> samples, the sliced mel has exactly
  \<open>frames_per_seg = \<lceil>segment_size / hop_size\<rceil>\<close> frames and the sliced audio has exactly
  \<open>frames_per_seg * hop_size\<close> samples; they start at the frame \<open>mel_start\<close> that
  \<^verbatim>\<open>random.randint\<close> drew and at sample \<open>mel_start * hop_size\<close>. \<^verbatim>\<open>__getitem__\<close> returns
  them with the transform of the sliced audio as \<^verbatim>\<open>mel_loss\<close>, unless the transform
  refuses the sliced audio, in which case its exception is raised.
\<close>

theorem fine_tuning_segment_lengths:
  assumes mode: "fine_tuning d" "split d"
    and hop: "0 < hop_size d" and size: "0 \<le> segment_size d"
    and idx: "py_index (heap (audio_files d)) index = Inr filename"
    and load: "getitem_load E d filename = (d', Inr full)"
    and long: "segment_size d \<le> int (length full)"
    and dir: "base_mels_path d = Some dir"
    and npy: "np_load E (path_join dir (splitext_root (path_tail filename) @ ''.npy''))
                = Some mel_full"
    and fps: "frames_per_seg = \<lceil>rat_of_int (segment_size d) / rat_of_int (hop_size d)\<rceil>"
    and frames: "frames_per_seg + 1 \<le> int (length mel_full)"
    and samples: "(int (length mel_full) - 1) * hop_size d \<le> int (length full)"
  shows "\<exists>mel audio g' mel_start.
           randint 0 (int (length mel_full) - frames_per_seg - 1) g = Inr (mel_start, g') \<and>
           0 \<le> mel_start \<and> mel_start \<le> int (length mel_full) - frames_per_seg - 1 \<and>
           mel = take (nat frames_per_seg) (drop (nat mel_start) mel_full) \<and>
           audio = take (nat (frames_per_seg * hop_size d))
                     (drop (nat (mel_start * hop_size d)) full) \<and>
           int (length mel) = frames_per_seg \<and>
           int (length audio) = frames_per_seg * hop_size d \<and>
           getitem E heap d g index
             = ((d', g'), case mel_spec d' audio of
                            Inl e \<Rightarrow> Inl e
                          | Inr loss \<Rightarrow> Inr (mel, audio, filename, loss))"
proof -
  have k: "split d' = split d" "segment_size d' = segment_size d" "hop_size d' = hop_size d"
    "base_mels_path d' = base_mels_path d"
    using getitem_load_keeps(2,3,4,5) [of E d filename] load by simp_all
  have "(0::rat) \<le> rat_of_int (segment_size d) / rat_of_int (hop_size d)"
    using hop size by simp
  then have f0: "0 \<le> frames_per_seg"
    unfolding fps by (metis ceiling_mono ceiling_zero)
  obtain s g' where r: "randint 0 (int (length mel_full) - frames_per_seg - 1) g = Inr (s, g')"
    and s: "0 \<le> s" "s \<le> int (length mel_full) - frames_per_seg - 1"
    using randint_range [of 0 "int (length mel_full) - frames_per_seg - 1" g] frames by auto
  let ?mel = "py_slice mel_full (Some s) (Some (s + frames_per_seg))"
  let ?audio = "py_slice full (Some (s * hop_size d)) (Some ((s + frames_per_seg) * hop_size d))"
  have m: "?mel = take (nat frames_per_seg) (drop (nat s) mel_full)"
      "int (length ?mel) = frames_per_seg"
    using py_slice_inside [of s "s + frames_per_seg" mel_full] s f0 by simp_all
  have "(s + frames_per_seg) * hop_size d \<le> (int (length mel_full) - 1) * hop_size d"
    using s hop by (intro mult_right_mono) simp_all
  then have hi: "(s + frames_per_seg) * hop_size d \<le> int (length full)"
    using samples by linarith
  have lo: "0 \<le> s * hop_size d" using s hop by simp
  have le: "s * hop_size d \<le> (s + frames_per_seg) * hop_size d"
    using f0 hop by (intro mult_right_mono) simp_all
  have df: "(s + frames_per_seg) * hop_size d - s * hop_size d = frames_per_seg * hop_size d"
    by (simp add: algebra_simps)
  have a: "?audio = take (nat (frames_per_seg * hop_size d)) (drop (nat (s * hop_size d)) full)"
      "int (length ?audio) = frames_per_seg * hop_size d"
    using py_slice_inside [OF lo le hi] unfolding df by simp_all
  have q: "py_truediv (segment_size d) (hop_size d)
      = Inr (rat_of_int (segment_size d) / rat_of_int (hop_size d))"
    using hop by (simp add: py_truediv_def)
  have seg: "segment_fine_tuning E d' filename full g = Inr (?mel, ?audio, g')"
    using mode(2) k dir npy q long r fps by (simp add: segment_fine_tuning_def Let_def)
  have out: "getitem E heap d g index
      = ((d', g'), case mel_spec d' ?audio of
                     Inl e \<Rightarrow> Inl e
                   | Inr loss \<Rightarrow> Inr (?mel, ?audio, filename, loss))"
    using idx load seg mode(1) by (simp add: getitem_def split: sum.splits)
  show ?thesis
    using r s m a out
    by (intro exI [of _ ?mel] exI [of _ ?audio] exI [of _ g'] exI [of _ s]) simp
qed

theorem fine_tuning_segment_lengths_witness:
  "fine_tuning (example_dataset (example_args\<lparr>segment_size := 10, hop_size := 4, split := True,
      fine_tuning := True\<rparr>)) \<and>
   segment_size (example_dataset (example_args\<lparr>segment_size := 10, hop_size := 4, split := True,
      fine_tuning := True\<rparr>)) \<le> int (length (replicate 16 (0::real))) \<and>
   (3::int) + 1 \<le> int (length (replicate 5 [0::real])) \<and>
   (\<exists>mel audio d' g' loss.
      getitem example_env example_heap
        (example_dataset (example_args\<lparr>segment_size := 10, hop_size := 4, split := True,
           fine_tuning := True\<rparr>)) (\<lambda>i. 0) 3
        = ((d', g'), Inr (mel, audio, ''d.wav'', loss)) \<and>
      int (length mel) = 3 \<and> int (length audio) = 12)"
proof -
  let ?a = "example_args\<lparr>segment_size := 10, hop_size := 4, split := True, fine_tuning := True\<rparr>"
  let ?d = "example_dataset ?a"
  let ?audio = "map (\<lambda>v. real_of_int v / 32768) (replicate 16 0)"
  let ?d' = "?d\<lparr>cached_wav := Some ?audio, cache_ref_count := n_cache_reuse ?a\<rparr>"
  have w: "wav_read example_env ''d.wav'' = Some (22050, replicate 16 0)"
    by (simp add: example_env_def)
  have load: "getitem_load example_env ?d ''d.wav'' = (?d', Inr ?audio)"
    by (rule example_load_same_rate [OF w]) (simp add: example_args_def)
  have npy: "np_load example_env (path_join ''mels'' (splitext_root (path_tail ''d.wav'') @ ''.npy''))
      = Some (replicate 5 [0])"
    unfolding example_paths by (simp add: example_env_def)
  have mode: "fine_tuning ?d" "split ?d"
    by (simp_all add: example_dataset_fields)
  have hop: "0 < hop_size ?d" and size: "0 \<le> segment_size ?d"
    by (simp_all add: example_dataset_fields)
  have idx: "py_index (example_heap (audio_files ?d)) 3 = Inr ''d.wav''"
    by (simp add: example_dataset_fields example_index)
  have long: "segment_size ?d \<le> int (length ?audio)"
    by (simp add: example_dataset_fields)
  have dir: "base_mels_path ?d = Some ''mels''"
    by (simp add: example_dataset_fields example_args_def)
  have fps: "(3::int) = \<lceil>rat_of_int (segment_size ?d) / rat_of_int (hop_size ?d)\<rceil>"
    using ceiling_ten_quarters by (simp add: example_dataset_fields)
  have frames: "(3::int) + 1 \<le> int (length (replicate 5 [0::real]))"
    by simp
  have samples: "(int (length (replicate 5 [0::real])) - 1) * hop_size ?d \<le> int (length ?audio)"
    by (simp add: example_dataset_fields)
  obtain mel audio g' where len: "int (length mel) = 3" "int (length audio) = 3 * hop_size ?d"
    and res: "getitem example_env example_heap ?d (\<lambda>i. 0) 3
             = ((?d', g'), case mel_spec ?d' audio of
                            Inl e \<Rightarrow> Inl e
                          | Inr loss \<Rightarrow> Inr (mel, audio, ''d.wav'', loss))"
    using fine_tuning_segment_lengths [where heap = example_heap and g = "\<lambda>i. 0",
        OF mode hop size idx load long dir npy fps frames samples]
    by blast
  have la: "int (length audio) = 12"
    using len(2) by (simp add: example_dataset_fields)
  then have ne: "audio \<noteq> []" by auto
  have ms: "mel_spec ?d' = mel_spec ?d" by simp
  obtain loss where loss: "mel_spec ?d' audio = Inr loss"
    unfolding ms using example_mel_spec_accepts [of ?a audio] ne
    by (auto simp: example_args_def)
  have "getitem example_env example_heap ?d (\<lambda>i. 0) 3
      = ((?d', g'), Inr (mel, audio, ''d.wav'', loss))"
    using res loss by simp
  moreover have "segment_size ?d \<le> int (length (replicate 16 (0::real)))"
    by (simp add: example_dataset_fields)
  ultimately show ?thesis
    using mode frames len(1) la by blast
qed

section \<open>The mel spectrogram of the dataset\<close>

lemma MelDataset_init_mel_spec:
  assumes "MelDataset_init E heap0 g0 training_files a do_shuffle = (heap, g1, d0)"
  shows "mel_spec d0 = MelSpectrogram E (sampling_rate a) (n_fft a) (win_size a) (hop_size a)
           (fmin a) (fmax a) (py_int (of_int (n_fft a - hop_size a) / 2)) (num_mels a) 2"
    and "fine_tuning d0 = fine_tuning a"
  using assms by (auto simp: MelDataset_init_def Let_def split_beta)

text \<open>
  Claim C2, amended. Without fine-tuning, the mel that \<^verbatim>\<open>__getitem__\<close> returns is the
  projection through torchaudio's mel filter bank of the squared magnitudes of the
  short-time Fourier transform of the returned audio segment, zero-padded by
  \<^verbatim>\<open>int((n_fft - hop_size) / 2)\<close>; no logarithm and no clamping is applied, and the
  returned \<^verbatim>\<open>mel_loss\<close> is the same tensor. This holds for a dataset made by the
  constructor, in any state of its cache.
\<close>

theorem getitem_mel_is_power_mel:
  assumes init: "MelDataset_init E heap0 g0 training_files a do_shuffle = (heap, g1, d0)"
    and plain: "\<not> fine_tuning a"
    and ret: "getitem E heap (d0\<lparr>cached_wav := c, cache_ref_count := n\<rparr>) g index
                = ((d', g'), Inr (mel, audio, filename, loss))"
  shows "mel = map (\<lambda>frame. mat_vec
                 (melscale_fbanks E (n_fft a div 2 + 1) (fmin a) (fmax a) (num_mels a)
                    (sampling_rate a))
                 (map (\<lambda>z. (cmod z)\<^sup>2) frame))
               (stft E (n_fft a) (hop_size a) (win_size a) (torch_hann_window E (win_size a))
                  (zero_pad (py_int (of_int (n_fft a - hop_size a) / 2)) audio)) \<and>
         loss = mel"
proof -
  let ?d = "d0\<lparr>cached_wav := c, cache_ref_count := n\<rparr>"
  have ft: "\<not> fine_tuning ?d"
    using MelDataset_init_mel_spec(2) [OF init] plain by simp
  have "\<exists>f full. getitem_load E ?d f = (d', Inr full) \<and> mel_spec d' audio = Inr mel \<and>
      loss = mel"
    using ret ft
    by (auto simp: getitem_def Let_def split: sum.splits prod.splits)
  then obtain f full where l: "getitem_load E ?d f = (d', Inr full)"
    and m: "mel_spec d' audio = Inr mel" and ls: "loss = mel"
    by blast
  have "mel_spec d' = mel_spec ?d"
    using getitem_load_keeps(6) [of E ?d f] l by simp
  then have "mel_spec d0 audio = Inr mel"
    using m by simp
  then have "mel = map (\<lambda>frame. mat_vec
                 (melscale_fbanks E (n_fft a div 2 + 1) (fmin a) (fmax a) (num_mels a)
                    (sampling_rate a))
                 (map (\<lambda>z. (cmod z)\<^sup>2) frame))
               (stft E (n_fft a) (hop_size a) (win_size a) (torch_hann_window E (win_size a))
                  (zero_pad (py_int (of_int (n_fft a - hop_size a) / 2)) audio))"
    unfolding MelDataset_init_mel_spec(1) [OF init] by (rule MelSpectrogram_result)
  then show ?thesis using ls by simp
qed

theorem getitem_mel_is_power_mel_witness:
  "MelDataset_init example_env example_heap (\<lambda>i. 0) 0 example_args False
     = (example_heap, seed_state example_env 1234, example_dataset example_args) \<and>
   \<not> fine_tuning example_args \<and>
   getitem example_env example_heap
     ((example_dataset example_args)\<lparr>cached_wav := None, cache_ref_count := 0\<rparr>) (\<lambda>i. 0) 0
     = (((example_dataset example_args)\<lparr>cached_wav := Some [1 / 2], cache_ref_count := 1\<rparr>,
         \<lambda>i. 0), Inr ([[1 / 4]], [1 / 2], ''a.wav'', [[1 / 4]])) \<and>
   [[1 / 4]] = map (\<lambda>frame. mat_vec
                 (melscale_fbanks example_env (n_fft example_args div 2 + 1) (fmin example_args)
                    (fmax example_args) (num_mels example_args) (sampling_rate example_args))
                 (map (\<lambda>z. (cmod z)\<^sup>2) frame))
               (stft example_env (n_fft example_args) (hop_size example_args)
                  (win_size example_args) (torch_hann_window example_env (win_size example_args))
                  (zero_pad (py_int (of_int (n_fft example_args - hop_size example_args) / 2))
                     [1 / 2]))"
proof -
  have plain: "\<not> fine_tuning example_args"
    by (simp add: example_args_def)
  have ret: "getitem example_env example_heap
     ((example_dataset example_args)\<lparr>cached_wav := None, cache_ref_count := 0\<rparr>) (\<lambda>i. 0) 0
     = (((example_dataset example_args)\<lparr>cached_wav := Some [1 / 2], cache_ref_count := 1\<rparr>,
         \<lambda>i. 0), Inr ([[1 / 4]], [1 / 2], ''a.wav'', [[1 / 4]]))"
    unfolding example_dataset_fresh by (rule example_getitem_a)
  show ?thesis
    using getitem_mel_is_power_mel [OF example_dataset_init plain ret]
      example_dataset_init [of example_args] plain ret
    by blast
qed

text \<open>
  The claim C2 as stated fails: for the one-sample file \<^verbatim>\<open>a.wav\<close> with sample \<open>1/2\<close>,
  frames of one sample and a single all-one filter, the returned mel is \<open>1/4\<close>, the
  squared magnitude, while the log-compressed magnitude mel is \<open>ln (1/2)\<close>.
\<close>

theorem getitem_mel_not_log_magnitude:
  "\<exists>d' g' mel audio loss.
     getitem example_env example_heap (example_dataset example_args) (\<lambda>i. 0) 0
       = ((d', g'), Inr (mel, audio, ''a.wav'', loss)) \<and>
     mel = [[1 / 4]] \<and>
     spec_log_mel (melscale_fbanks example_env 1 0 (Some 8000) 1 22050)
       (stft example_env 1 1 1 (torch_hann_window example_env 1) audio) = [[ln (1 / 2)]] \<and>
     mel \<noteq> spec_log_mel (melscale_fbanks example_env 1 0 (Some 8000) 1 22050)
              (stft example_env 1 1 1 (torch_hann_window example_env 1) audio)"
proof -
  have st: "stft example_env 1 1 1 (torch_hann_window example_env 1) [1 / 2] = [[of_real (1 / 2)]]"
    by (simp add: example_env_def example_hann_def example_stft_one)
  have fb: "melscale_fbanks example_env 1 0 (Some 8000) 1 22050 = [[1]]"
    by (simp add: example_env_def)
  have sp: "spec_log_mel (melscale_fbanks example_env 1 0 (Some 8000) 1 22050)
       (stft example_env 1 1 1 (torch_hann_window example_env 1) [1 / 2]) = [[ln (1 / 2)]]"
    unfolding st fb by (simp add: spec_log_mel_def mat_vec_def norm_divide)
  have "ln (1 / 2 :: real) < 0" by simp
  then have "(1 / 4 :: real) \<noteq> ln (1 / 2)" by linarith
  then have ne: "[[1 / 4 :: real]] \<noteq> [[ln (1 / 2)]]" by (metis list.inject)
  show ?thesis
    unfolding example_getitem_a using sp ne by simp
qed

end
